theory Spec2Isabelle
  imports
    Main
    "HOL-Library.Char_ord"
    "HOL-Library.List_Lexorder"
    "HOL-Library.Product_Lexorder"
    "HOL-Library.Monad_Syntax"
begin

section \<open>Blog API: post and category controllers, validation, post routes\<close>

text \<open>
  A shallow embedding of \<^verbatim>\<open>server/controllers/categoryController.js\<close>,
  \<^verbatim>\<open>server/controllers/postController.js\<close>, \<^verbatim>\<open>server/utils/validation.js\<close> and
  \<^verbatim>\<open>server/routes/posts.js\<close>. Every handler is a function from the document store and the
  request to a response and the store it leaves behind. An operation of the object-document
  mapper that rejects (a cast error, an invalid regular expression, a negative skip, a lost
  connection) is \<open>None\<close> in the option monad, and the handler's \<^verbatim>\<open>catch\<close> block turns it into
  the 500 response.
\<close>

subsection \<open>Strings, identifiers, numbers\<close>

text \<open>ASCII lower case, as a table (identifiers and route literals are ASCII).\<close>

definition toLowerCase :: "char \<Rightarrow> char" where
  "toLowerCase c =
     (case map_of (zip ''ABCDEFGHIJKLMNOPQRSTUVWXYZ'' ''abcdefghijklmnopqrstuvwxyz'') c of
        Some d \<Rightarrow> d
      | None \<Rightarrow> c)"

text \<open>The test \<^verbatim>\<open>/^[0-9a-fA-F]{24}$/.test(id)\<close> of the controllers.\<close>

definition isObjectId :: "string \<Rightarrow> bool" where
  "isObjectId s = (length s = 24 \<and> list_all (\<lambda>c. c \<in> set ''0123456789abcdefABCDEF'') s)"

text \<open>
  A value compared with an ObjectId path is either a string taken from the request, which the
  mapper casts (24 hexadecimal digits, read without regard to case; anything else is a cast
  error), or an ObjectId already, such as \<^verbatim>\<open>req.user._id\<close> or \<^verbatim>\<open>category._id\<close>.
  Stored identifiers are the lower-case hexadecimal text of \<^verbatim>\<open>toString()\<close>.
\<close>

datatype queryValue = StringValue string | ObjectIdValue string

fun castObjectId :: "queryValue \<Rightarrow> string option" where
  "castObjectId (ObjectIdValue oid) = Some oid"
| "castObjectId (StringValue s) = (if isObjectId s then Some (map toLowerCase s) else None)"

text \<open>
  \<^verbatim>\<open>parseInt(string)\<close> with no radix: leading white space is skipped, a sign is read, a
  \<^verbatim>\<open>0x\<close> prefix selects base 16, the longest run of digits is converted and the rest is
  ignored; no digit at all gives NaN, here \<open>None\<close>. The result is a double: the value of the
  digits rounded to 53 significant bits, ties to even, so that
  \<^verbatim>\<open>parseInt('9007199254740993')\<close> is 9007199254740992. A value that reaches \<open>2^1024\<close> is
  Infinity in JavaScript; the model has no such number and keeps the rounded integer.
  The arithmetic of the handlers on these numbers is exact up to \<open>2^53\<close>, and the
  statements that rest on it say so.
\<close>

function bitLength :: "nat \<Rightarrow> nat" where
  "bitLength n = (if n = 0 then 0 else Suc (bitLength (n div 2)))"
  by pat_completeness auto
termination
  by (relation "measure id") auto

declare bitLength.simps [simp del]

definition roundToDouble :: "nat \<Rightarrow> nat" where
  "roundToDouble n =
     (if n < 2 ^ 53 then n
      else (let e = bitLength n - 53;
                q = n div 2 ^ e;
                r = n mod 2 ^ e;
                h = 2 ^ (e - 1)
            in (if r < h \<or> (r = h \<and> even q) then q else q + 1) * 2 ^ e))"

definition isWhiteSpace :: "char \<Rightarrow> bool" where
  "isWhiteSpace c = (c \<in> set [CHR 0x09, CHR 0x0A, CHR 0x0B, CHR 0x0C, CHR 0x0D, CHR 0x20])"

definition digitValue :: "char \<Rightarrow> nat option" where
  "digitValue c =
     map_of (zip ''0123456789abcdefABCDEF''
               [0, 1, 2, 3, 4, 5, 6, 7, 8, 9, 10, 11, 12, 13, 14, 15, 10, 11, 12, 13, 14, 15]) c"

definition radixDigit :: "nat \<Rightarrow> char \<Rightarrow> bool" where
  "radixDigit r c = (case digitValue c of None \<Rightarrow> False | Some d \<Rightarrow> d < r)"

definition digitsValue :: "nat \<Rightarrow> string \<Rightarrow> nat" where
  "digitsValue r ds = foldl (\<lambda>acc c. acc * r + (case digitValue c of None \<Rightarrow> 0 | Some d \<Rightarrow> d)) 0 ds"

definition parseInt :: "string \<Rightarrow> int option" where
  "parseInt s =
     (let s1 = dropWhile isWhiteSpace s;
          neg = (s1 \<noteq> [] \<and> hd s1 = CHR ''-'');
          s2 = (if s1 \<noteq> [] \<and> (hd s1 = CHR ''-'' \<or> hd s1 = CHR ''+'') then tl s1 else s1);
          hex = (take 2 s2 = ''0x'' \<or> take 2 s2 = ''0X'');
          r = (if hex then 16 else 10);
          s3 = (if hex then drop 2 s2 else s2);
          ds = takeWhile (radixDigit r) s3
      in if ds = [] then None
         else Some ((if neg then - 1 else 1) * int (roundToDouble (digitsValue r ds))))"

text \<open>\<^verbatim>\<open>parseInt(req.query.x) || d\<close>: a missing parameter, NaN and 0 all give the default.\<close>

definition parseIntOr :: "string option \<Rightarrow> int \<Rightarrow> int" where
  "parseIntOr v d =
     (case v of
        None \<Rightarrow> d
      | Some s \<Rightarrow> (case parseInt s of None \<Rightarrow> d | Some n \<Rightarrow> if n = 0 then d else n))"

text \<open>\<^verbatim>\<open>Math.ceil(total / limit)\<close> for a count and a non-zero integer.\<close>

definition ceilDiv :: "int \<Rightarrow> int \<Rightarrow> int" where
  "ceilDiv a b = - ((- a) div b)"

text \<open>Decimal text of a count, for the template string of \<^verbatim>\<open>deleteCategory\<close>.\<close>

function showNat :: "nat \<Rightarrow> string" where
  "showNat n =
     (if n < 10 then [''0123456789'' ! n]
      else showNat (n div 10) @ [''0123456789'' ! (n mod 10)])"
  by pat_completeness auto
termination
  by (relation "measure id") auto

declare showNat.simps [simp del]

subsection \<open>Documents and the store\<close>

record comment =
  comment_user :: string
  comment_content :: string

record post =
  post_id :: string
  post_title :: string
  post_content :: string
  post_excerpt :: "string option"
  post_slug :: string
  post_featuredImage :: string
  post_isPublished :: bool
  post_viewCount :: nat
  post_tags :: "string list"
  post_comments :: "comment list"
  post_author :: string
  post_category :: string
  post_createdAt :: int

record category =
  cat_id :: string
  cat_name :: string
  cat_slug :: string
  cat_description :: "string option"
  cat_color :: "string option"
  cat_icon :: "string option"
  cat_isActive :: bool

record user =
  user_id :: string
  user_role :: string

text \<open>
  The store: both collections in their natural order, the regular expression engine that
  evaluates \<^verbatim>\<open>$regex\<close> and RegExp conditions (pattern and options to a matcher, \<open>None\<close> for
  a pattern it rejects), and whether the connection is up. The engine is a parameter of
  the model: the controllers only pass the pattern and the option \<^verbatim>\<open>i\<close> to it.
\<close>

type_synonym regexEngine = "string \<Rightarrow> string \<Rightarrow> (string \<Rightarrow> bool) option"

record db =
  db_posts :: "post list"
  db_categories :: "category list"
  db_regex :: regexEngine
  db_connected :: bool

subsection \<open>Query conditions\<close>

datatype postField = Title | Content | Excerpt

datatype postQuery =
    PostId queryValue
  | PostSlug string
  | PostAuthor queryValue
  | PostCategory queryValue
  | PostIsPublished bool
  | PostRegex postField string string
  | PostTagsIn string string
  | PostAnd "postQuery list"
  | PostOr "postQuery list"

fun postFieldText :: "postField \<Rightarrow> post \<Rightarrow> string option" where
  "postFieldText Title p = Some (post_title p)"
| "postFieldText Content p = Some (post_content p)"
| "postFieldText Excerpt p = post_excerpt p"

text \<open>Whether the mapper and the server accept the condition: every cast and every pattern.\<close>

fun postQuery_valid :: "regexEngine \<Rightarrow> postQuery \<Rightarrow> bool" where
  "postQuery_valid re (PostId v) = (castObjectId v \<noteq> None)"
| "postQuery_valid re (PostSlug s) = True"
| "postQuery_valid re (PostAuthor v) = (castObjectId v \<noteq> None)"
| "postQuery_valid re (PostCategory v) = (castObjectId v \<noteq> None)"
| "postQuery_valid re (PostIsPublished b) = True"
| "postQuery_valid re (PostRegex f pat opts) = (re pat opts \<noteq> None)"
| "postQuery_valid re (PostTagsIn pat opts) = (re pat opts \<noteq> None)"
| "postQuery_valid re (PostAnd qs) = list_all (postQuery_valid re) qs"
| "postQuery_valid re (PostOr qs) = list_all (postQuery_valid re) qs"

text \<open>Whether a document satisfies the condition. A tag list satisfies the \<^verbatim>\<open>$in\<close> of a
  regular expression when one of its elements matches.\<close>

fun postQuery_holds :: "regexEngine \<Rightarrow> postQuery \<Rightarrow> post \<Rightarrow> bool" where
  "postQuery_holds re (PostId v) p = (castObjectId v = Some (post_id p))"
| "postQuery_holds re (PostSlug s) p = (post_slug p = s)"
| "postQuery_holds re (PostAuthor v) p = (castObjectId v = Some (post_author p))"
| "postQuery_holds re (PostCategory v) p = (castObjectId v = Some (post_category p))"
| "postQuery_holds re (PostIsPublished b) p = (post_isPublished p = b)"
| "postQuery_holds re (PostRegex f pat opts) p =
     (case re pat opts of
        None \<Rightarrow> False
      | Some m \<Rightarrow> (case postFieldText f p of None \<Rightarrow> False | Some s \<Rightarrow> m s))"
| "postQuery_holds re (PostTagsIn pat opts) p =
     (case re pat opts of None \<Rightarrow> False | Some m \<Rightarrow> list_ex m (post_tags p))"
| "postQuery_holds re (PostAnd qs) p = list_all (\<lambda>q. postQuery_holds re q p) qs"
| "postQuery_holds re (PostOr qs) p = list_ex (\<lambda>q. postQuery_holds re q p) qs"

datatype categoryQuery =
    CategoryId queryValue
  | CategorySlug string
  | CategoryName "string option"
  | CategoryIsActive bool

fun categoryQuery_valid :: "categoryQuery \<Rightarrow> bool" where
  "categoryQuery_valid (CategoryId v) = (castObjectId v \<noteq> None)"
| "categoryQuery_valid _ = True"

text \<open>Every stored category has a name, so the condition on an undefined name selects none.\<close>

fun categoryQuery_holds :: "categoryQuery \<Rightarrow> category \<Rightarrow> bool" where
  "categoryQuery_holds (CategoryId v) c = (castObjectId v = Some (cat_id c))"
| "categoryQuery_holds (CategorySlug s) c = (cat_slug c = s)"
| "categoryQuery_holds (CategoryName n) c = (n = Some (cat_name c))"
| "categoryQuery_holds (CategoryIsActive b) c = (cat_isActive c = b)"

subsection \<open>Operations of the object-document mapper\<close>

text \<open>
  Sorting follows the comparison order of the store: null and missing values first, then
  numbers, text, identifiers, booleans and dates. A key is the rank of the type, the numeric
  value and the text. Array-valued and unknown paths give every document the null key.
  Documents with equal keys keep their natural order in both directions.
\<close>

definition post_sortKey :: "string \<Rightarrow> post \<Rightarrow> nat \<times> int \<times> string" where
  "post_sortKey f p =
     (if f = ''createdAt'' then (5, post_createdAt p, [])
      else if f = ''isPublished'' then (4, (if post_isPublished p then 1 else 0), [])
      else if f = ''_id'' then (3, 0, post_id p)
      else if f = ''author'' then (3, 0, post_author p)
      else if f = ''category'' then (3, 0, post_category p)
      else if f = ''title'' then (2, 0, post_title p)
      else if f = ''content'' then (2, 0, post_content p)
      else if f = ''slug'' then (2, 0, post_slug p)
      else if f = ''featuredImage'' then (2, 0, post_featuredImage p)
      else if f = ''excerpt'' then (case post_excerpt p of None \<Rightarrow> (0, 0, []) | Some e \<Rightarrow> (2, 0, e))
      else if f = ''viewCount'' then (1, int (post_viewCount p), [])
      else (0, 0, []))"

definition Query_sort :: "string \<Rightarrow> int \<Rightarrow> post list \<Rightarrow> post list" where
  "Query_sort f order ps =
     (if order = 1 then sort_key (post_sortKey f) ps
      else rev (sort_key (post_sortKey f) (rev ps)))"

text \<open>\<^verbatim>\<open>.skip(n).limit(m)\<close>: the server rejects a negative skip; a negative limit asks for
  that many documents in one batch; the limit 0 is no limit.\<close>

definition Query_skip_limit :: "int \<Rightarrow> int \<Rightarrow> 'a list \<Rightarrow> 'a list option" where
  "Query_skip_limit skip limit xs =
     (if skip < 0 then None
      else Some (if limit = 0 then drop (nat skip) xs
                 else take (nat \<bar>limit\<bar>) (drop (nat skip) xs)))"

definition Post_find ::
  "db \<Rightarrow> postQuery \<Rightarrow> string \<times> int \<Rightarrow> int \<Rightarrow> int \<Rightarrow> post list option" where
  "Post_find d q srt skip limit =
     (if db_connected d \<and> postQuery_valid (db_regex d) q
      then Query_skip_limit skip limit
             (Query_sort (fst srt) (snd srt) (filter (postQuery_holds (db_regex d) q) (db_posts d)))
      else None)"

definition Post_countDocuments :: "db \<Rightarrow> postQuery \<Rightarrow> nat option" where
  "Post_countDocuments d q =
     (if db_connected d \<and> postQuery_valid (db_regex d) q
      then Some (length (filter (postQuery_holds (db_regex d) q) (db_posts d)))
      else None)"

text \<open>\<open>Some None\<close> is the answer \<^verbatim>\<open>null\<close>: the operation ran and found no document.\<close>

definition Post_findOne :: "db \<Rightarrow> postQuery \<Rightarrow> post option option" where
  "Post_findOne d q =
     (if db_connected d \<and> postQuery_valid (db_regex d) q
      then Some (find (postQuery_holds (db_regex d) q) (db_posts d))
      else None)"

definition Post_findById :: "db \<Rightarrow> queryValue \<Rightarrow> post option option" where
  "Post_findById d v = Post_findOne d (PostId v)"

text \<open>Identifiers are unique in a collection, so the documents that carry the identifier of
  a saved or deleted document are that one stored document.\<close>

definition Post_save :: "db \<Rightarrow> post \<Rightarrow> db option" where
  "Post_save d p =
     (if db_connected d
      then Some (d\<lparr>db_posts := map (\<lambda>q. if post_id q = post_id p then p else q) (db_posts d)\<rparr>)
      else None)"

definition Post_findByIdAndDelete :: "db \<Rightarrow> queryValue \<Rightarrow> db option" where
  "Post_findByIdAndDelete d v =
     (if db_connected d \<and> castObjectId v \<noteq> None
      then Some (d\<lparr>db_posts := filter (\<lambda>p. castObjectId v \<noteq> Some (post_id p)) (db_posts d)\<rparr>)
      else None)"

definition Category_find ::
  "db \<Rightarrow> categoryQuery \<Rightarrow> (category \<Rightarrow> 'k::linorder) \<Rightarrow> category list option" where
  "Category_find d q key =
     (if db_connected d \<and> categoryQuery_valid q
      then Some (sort_key key (filter (categoryQuery_holds q) (db_categories d)))
      else None)"

definition Category_findOne :: "db \<Rightarrow> categoryQuery \<Rightarrow> category option option" where
  "Category_findOne d q =
     (if db_connected d \<and> categoryQuery_valid q
      then Some (find (categoryQuery_holds q) (db_categories d))
      else None)"

definition Category_findById :: "db \<Rightarrow> queryValue \<Rightarrow> category option option" where
  "Category_findById d v = Category_findOne d (CategoryId v)"

definition Category_save :: "db \<Rightarrow> category \<Rightarrow> db option" where
  "Category_save d c =
     (if db_connected d
      then Some (d\<lparr>db_categories := map (\<lambda>x. if cat_id x = cat_id c then c else x) (db_categories d)\<rparr>)
      else None)"

definition Category_findByIdAndDelete :: "db \<Rightarrow> queryValue \<Rightarrow> db option" where
  "Category_findByIdAndDelete d v =
     (if db_connected d \<and> castObjectId v \<noteq> None
      then Some (d\<lparr>db_categories := filter (\<lambda>c. castObjectId v \<noteq> Some (cat_id c)) (db_categories d)\<rparr>)
      else None)"

text \<open>
  What the server adds when a document is created: the fresh identifier, the time, and the
  slug that the schema derives from a title or name.
\<close>

record env =
  env_newId :: string
  env_now :: int
  env_slugify :: "string \<Rightarrow> string"

text \<open>
  Modelled from the spec: the Post schema of \<^verbatim>\<open>models/Post.js\<close>, which is not among the
  sources. A post has a title, content, one author and one category (an identifier), a slug
  derived from the title and a view counter that starts at 0; creation without a title,
  content or a well-formed category is a validation error.
\<close>

definition Post_create ::
  "env \<Rightarrow> db \<Rightarrow> string option \<Rightarrow> string option \<Rightarrow> string option \<Rightarrow> string option \<Rightarrow>
   string list \<Rightarrow> bool \<Rightarrow> string \<Rightarrow> string \<Rightarrow> (post \<times> db) option" where
  "Post_create e d title content excerpt category tags isPublished featuredImage author =
     (case (title, content, category) of
        (Some t, Some c, Some cat) \<Rightarrow>
          (case castObjectId (StringValue cat) of
             None \<Rightarrow> None
           | Some catId \<Rightarrow>
               if db_connected d \<and> t \<noteq> [] \<and> c \<noteq> []
               then (let p = \<lparr>post_id = env_newId e, post_title = t, post_content = c,
                               post_excerpt = excerpt, post_slug = env_slugify e t,
                               post_featuredImage = featuredImage, post_isPublished = isPublished,
                               post_viewCount = 0, post_tags = tags, post_comments = [],
                               post_author = author, post_category = catId,
                               post_createdAt = env_now e\<rparr>
                     in Some (p, d\<lparr>db_posts := db_posts d @ [p]\<rparr>))
               else None)
      | _ \<Rightarrow> None)"

text \<open>
  Modelled from the spec: the Category schema of \<^verbatim>\<open>models/Category.js\<close>, which is not
  among the sources. A category has a name, optional description, colour and icon, and an
  active flag that is set on creation; creation without a name is a validation error.
\<close>

definition Category_create ::
  "env \<Rightarrow> db \<Rightarrow> string option \<Rightarrow> string option \<Rightarrow> string option \<Rightarrow> string option \<Rightarrow>
   (category \<times> db) option" where
  "Category_create e d name description color icon =
     (case name of
        None \<Rightarrow> None
      | Some n \<Rightarrow>
          if db_connected d \<and> n \<noteq> []
          then (let c = \<lparr>cat_id = env_newId e, cat_name = n, cat_slug = env_slugify e n,
                          cat_description = description, cat_color = color, cat_icon = icon,
                          cat_isActive = True\<rparr>
                in Some (c, d\<lparr>db_categories := db_categories d @ [c]\<rparr>))
          else None)"

text \<open>
  Modelled from the spec: the method \<^verbatim>\<open>incrementViewCount\<close> of the Post model, which is not
  among the sources. The view count of the document goes up by one and the document is saved.
\<close>

definition incrementViewCount :: "db \<Rightarrow> post \<Rightarrow> (post \<times> db) option" where
  "incrementViewCount d p =
     (let p' = p\<lparr>post_viewCount := post_viewCount p + 1\<rparr>
      in map_option (\<lambda>d'. (p', d')) (Post_save d p'))"

text \<open>
  Modelled from the spec: the method \<^verbatim>\<open>addComment\<close> of the Post model, which is not among
  the sources. A comment (its content and the commenting user) is appended to the embedded
  list and the document is saved.
\<close>

definition post_addComment :: "db \<Rightarrow> post \<Rightarrow> string \<Rightarrow> string option \<Rightarrow> db option" where
  "post_addComment d p uid content =
     (case content of
        None \<Rightarrow> None
      | Some c \<Rightarrow>
          Post_save d (p\<lparr>post_comments :=
            post_comments p @ [\<lparr>comment_user = uid, comment_content = c\<rparr>]\<rparr>))"

subsection \<open>Requests and responses\<close>

record body =
  body_title :: "string option"
  body_content :: "string option"
  body_excerpt :: "string option"
  body_category :: "string option"
  body_tags :: "string list option"
  body_isPublished :: "bool option"
  body_name :: "string option"
  body_description :: "string option"
  body_color :: "string option"
  body_icon :: "string option"
  body_isActive :: "bool option"

record validationError =
  ve_path :: string
  ve_msg :: string
  ve_value :: string

text \<open>
  A request: the route parameter \<^verbatim>\<open>id\<close>, the query string as pairs (each name once,
  each value a string), the body, the user that the authentication middleware attached
  (if any), the name of the uploaded file (if any), and what \<^verbatim>\<open>validationResult(req)\<close>
  holds once the validation chains have run.
\<close>

record request =
  req_params_id :: string
  req_query :: "(string \<times> string) list"
  req_body :: body
  req_user :: "user option"
  req_file :: "string option"
  req_validation :: "validationError list"

definition queryParam :: "request \<Rightarrow> string \<Rightarrow> string option" where
  "queryParam req k = map_of (req_query req) k"

text \<open>Truthiness of an optional string: defined and not empty.\<close>

definition truthy :: "string option \<Rightarrow> bool" where
  "truthy v = (case v of None \<Rightarrow> False | Some s \<Rightarrow> s \<noteq> [])"

record pagination =
  currentPage :: int
  totalPages :: int
  totalPosts :: nat
  postsPerPage :: int
  hasNextPage :: "bool option"
  hasPrevPage :: "bool option"
  searchedFor :: "string option"

datatype payload =
    NoData
  | PostData "post option"
  | PostList "post list"
  | CategoryData category
  | CategoryList "category list"
  | CategoryPosts category "post list" pagination

record fieldError =
  fe_field :: string
  fe_message :: string
  fe_value :: string

text \<open>The status code and the JSON body; a key that the body does not have is \<open>None\<close>
  (\<open>NoData\<close> for \<^verbatim>\<open>data\<close>). The documents in \<^verbatim>\<open>data\<close> stand for their populated and
  projected renderings.\<close>

record response =
  res_status :: nat
  res_success :: bool
  res_error :: "string option"
  res_errors :: "fieldError list option"
  res_message :: "string option"
  res_data :: payload
  res_pagination :: "pagination option"

definition failure :: "nat \<Rightarrow> string \<Rightarrow> response" where
  "failure code msg =
     \<lparr>res_status = code, res_success = False, res_error = Some msg, res_errors = None,
      res_message = None, res_data = NoData, res_pagination = None\<rparr>"

definition succeed :: "nat \<Rightarrow> payload \<Rightarrow> response" where
  "succeed code d =
     \<lparr>res_status = code, res_success = True, res_error = None, res_errors = None,
      res_message = None, res_data = d, res_pagination = None\<rparr>"

definition succeedPage :: "payload \<Rightarrow> pagination \<Rightarrow> response" where
  "succeedPage d pg = (succeed 200 d)\<lparr>res_pagination := Some pg\<rparr>"

definition succeedMessage :: "string \<Rightarrow> response" where
  "succeedMessage msg = (succeed 200 NoData)\<lparr>res_message := Some msg\<rparr>"

text \<open>\<^verbatim>\<open>try { ... } catch (error) { res.status(500).json(...) }\<close>: in this model every
  rejection comes before the first write of a handler, so the store is the one it started
  with.\<close>

definition tryCatch :: "db \<Rightarrow> (response \<times> db) option \<Rightarrow> response \<times> db" where
  "tryCatch d r = (case r of Some x \<Rightarrow> x | None \<Rightarrow> (failure 500 ''Server error'', d))"

text \<open>\<^verbatim>\<open>v || d\<close> for an optional string, and the guarded assignments
  \<^verbatim>\<open>if (v) doc.f = v\<close> and \<^verbatim>\<open>if (v !== undefined) doc.f = v\<close>.\<close>

definition orDefault :: "string option \<Rightarrow> string \<Rightarrow> string" where
  "orDefault v d = (case v of None \<Rightarrow> d | Some s \<Rightarrow> if s = [] then d else s)"

definition setIfTruthy :: "string option \<Rightarrow> (string \<Rightarrow> 'a \<Rightarrow> 'a) \<Rightarrow> 'a \<Rightarrow> 'a" where
  "setIfTruthy v f x = (case v of None \<Rightarrow> x | Some s \<Rightarrow> if s = [] then x else f s x)"

definition setIfDefined :: "'b option \<Rightarrow> ('b \<Rightarrow> 'a \<Rightarrow> 'a) \<Rightarrow> 'a \<Rightarrow> 'a" where
  "setIfDefined v f x = (case v of None \<Rightarrow> x | Some s \<Rightarrow> f s x)"

subsection \<open>Category controller\<close>

definition getAllCategories :: "db \<Rightarrow> request \<Rightarrow> response \<times> db" where
  "getAllCategories d req = tryCatch d (do {
     categories \<leftarrow> Category_find d (CategoryIsActive True) cat_name;
     Some (succeed 200 (CategoryList categories), d)
   })"

definition getCategory :: "db \<Rightarrow> request \<Rightarrow> response \<times> db" where
  "getCategory d req = tryCatch d (do {
     let id = req_params_id req;
     let query = (if isObjectId id then CategoryId (StringValue id) else CategorySlug id);
     found \<leftarrow> Category_findOne d query;
     (case found of
        None \<Rightarrow> Some (failure 404 ''Category not found'', d)
      | Some category \<Rightarrow> Some (succeed 200 (CategoryData category), d))
   })"

definition createCategory :: "env \<Rightarrow> db \<Rightarrow> request \<Rightarrow> response \<times> db" where
  "createCategory e d req = tryCatch d (do {
     let b = req_body req;
     existingCategory \<leftarrow> Category_findOne d (CategoryName (body_name b));
     (case existingCategory of
        Some c \<Rightarrow> Some (failure 400 ''Category with this name already exists'', d)
      | None \<Rightarrow> do {
          (category, d1) \<leftarrow>
            Category_create e d (body_name b) (body_description b) (body_color b) (body_icon b);
          Some (succeed 201 (CategoryData category), d1)
        })
   })"

definition updateCategory :: "db \<Rightarrow> request \<Rightarrow> response \<times> db" where
  "updateCategory d req = tryCatch d (do {
     let id = req_params_id req;
     let b = req_body req;
     found \<leftarrow> Category_findById d (StringValue id);
     (case found of
        None \<Rightarrow> Some (failure 404 ''Category not found'', d)
      | Some category \<Rightarrow> do {
          existingCategory \<leftarrow>
            (if truthy (body_name b) \<and> body_name b \<noteq> Some (cat_name category)
             then Category_findOne d (CategoryName (body_name b))
             else Some None);
          (case existingCategory of
             Some c \<Rightarrow> Some (failure 400 ''Category with this name already exists'', d)
           | None \<Rightarrow> do {
               let c1 = setIfTruthy (body_name b) (\<lambda>v c. c\<lparr>cat_name := v\<rparr>) category;
               let c2 = setIfDefined (body_description b) (\<lambda>v c. c\<lparr>cat_description := Some v\<rparr>) c1;
               let c3 = setIfTruthy (body_color b) (\<lambda>v c. c\<lparr>cat_color := Some v\<rparr>) c2;
               let c4 = setIfTruthy (body_icon b) (\<lambda>v c. c\<lparr>cat_icon := Some v\<rparr>) c3;
               let c5 = setIfDefined (body_isActive b) (\<lambda>v c. c\<lparr>cat_isActive := v\<rparr>) c4;
               d1 \<leftarrow> Category_save d c5;
               Some (succeed 200 (CategoryData c5), d1)
             })
        })
   })"

definition deleteCategory :: "db \<Rightarrow> request \<Rightarrow> response \<times> db" where
  "deleteCategory d req = tryCatch d (do {
     let id = req_params_id req;
     found \<leftarrow> Category_findById d (StringValue id);
     (case found of
        None \<Rightarrow> Some (failure 404 ''Category not found'', d)
      | Some category \<Rightarrow> do {
          postCount \<leftarrow> Post_countDocuments d (PostCategory (StringValue id));
          if postCount > 0
          then Some (failure 400
                 (''Cannot delete category. It has '' @ showNat postCount @ '' associated posts.''), d)
          else do {
            d1 \<leftarrow> Category_findByIdAndDelete d (StringValue id);
            Some (succeedMessage ''Category deleted successfully'', d1)
          }
        })
   })"

definition getPostsByCategory :: "db \<Rightarrow> request \<Rightarrow> response \<times> db" where
  "getPostsByCategory d req = tryCatch d (do {
     let id = req_params_id req;
     let page = parseIntOr (queryParam req ''page'') 1;
     let limit = parseIntOr (queryParam req ''limit'') 10;
     let categoryQuery = (if isObjectId id then CategoryId (StringValue id) else CategorySlug id);
     found \<leftarrow> Category_findOne d categoryQuery;
     (case found of
        None \<Rightarrow> Some (failure 404 ''Category not found'', d)
      | Some category \<Rightarrow> do {
          let skip = (page - 1) * limit;
          let query = PostAnd [PostCategory (ObjectIdValue (cat_id category)), PostIsPublished True];
          posts \<leftarrow> Post_find d query (''createdAt'', - 1) skip limit;
          total \<leftarrow> Post_countDocuments d query;
          let totalPages = ceilDiv (int total) limit;
          Some (succeed 200 (CategoryPosts category posts
                  \<lparr>currentPage = page, totalPages = totalPages, totalPosts = total,
                   postsPerPage = limit, hasNextPage = None, hasPrevPage = None,
                   searchedFor = None\<rparr>), d)
        })
   })"

subsection \<open>Post controller\<close>

definition getAllPosts :: "db \<Rightarrow> request \<Rightarrow> response \<times> db" where
  "getAllPosts d req = tryCatch d (do {
     let page = parseIntOr (queryParam req ''page'') 1;
     let limit = parseIntOr (queryParam req ''limit'') 10;
     let category = queryParam req ''category'';
     let author = queryParam req ''author'';
     let search = queryParam req ''search'';
     let sortBy = orDefault (queryParam req ''sortBy'') ''createdAt'';
     let sortOrder = (if queryParam req ''sortOrder'' = Some ''asc'' then 1 else - 1);
     let q0 = [PostIsPublished True];
     let q1 = setIfTruthy category (\<lambda>c q. q @ [PostCategory (StringValue c)]) q0;
     let q2 = setIfTruthy author (\<lambda>a q. q @ [PostAuthor (StringValue a)]) q1;
     let q3 = setIfTruthy search (\<lambda>s q. q @
                [PostOr [PostRegex Title s ''i'', PostRegex Content s ''i'',
                         PostRegex Excerpt s ''i'', PostTagsIn s ''i'']]) q2;
     let query = PostAnd q3;
     let skip = (page - 1) * limit;
     posts \<leftarrow> Post_find d query (sortBy, sortOrder) skip limit;
     total \<leftarrow> Post_countDocuments d query;
     let totalPages = ceilDiv (int total) limit;
     let hasNextPage = (page < totalPages);
     let hasPrevPage = (page > 1);
     Some (succeedPage (PostList posts)
             \<lparr>currentPage = page, totalPages = totalPages, totalPosts = total,
              postsPerPage = limit, hasNextPage = Some hasNextPage,
              hasPrevPage = Some hasPrevPage, searchedFor = None\<rparr>, d)
   })"

definition getPost :: "db \<Rightarrow> request \<Rightarrow> response \<times> db" where
  "getPost d req = tryCatch d (do {
     let id = req_params_id req;
     let query = (if isObjectId id then PostId (StringValue id) else PostSlug id);
     found \<leftarrow> Post_findOne d query;
     (case found of
        None \<Rightarrow> Some (failure 404 ''Post not found'', d)
      | Some post \<Rightarrow>
          if post_isPublished post
          then do {
            (post', d1) \<leftarrow> incrementViewCount d post;
            Some (succeed 200 (PostData (Some post')), d1)
          }
          else Some (succeed 200 (PostData (Some post)), d))
   })"

definition createPost :: "env \<Rightarrow> db \<Rightarrow> request \<Rightarrow> response \<times> db" where
  "createPost e d req = tryCatch d (do {
     let b = req_body req;
     let isPublished = (case body_isPublished b of None \<Rightarrow> False | Some v \<Rightarrow> v);
     let featuredImage = (case req_file req of Some f \<Rightarrow> f | None \<Rightarrow> ''default-post.jpg'');
     u \<leftarrow> req_user req;
     (post, d1) \<leftarrow>
       Post_create e d (body_title b) (body_content b) (body_excerpt b) (body_category b)
         (case body_tags b of Some ts \<Rightarrow> ts | None \<Rightarrow> []) isPublished featuredImage (user_id u);
     populatedPost \<leftarrow> Post_findById d1 (ObjectIdValue (post_id post));
     Some (succeed 201 (PostData populatedPost), d1)
   })"

definition updatePost :: "db \<Rightarrow> request \<Rightarrow> response \<times> db" where
  "updatePost d req = tryCatch d (do {
     let id = req_params_id req;
     let b = req_body req;
     found \<leftarrow> Post_findById d (StringValue id);
     (case found of
        None \<Rightarrow> Some (failure 404 ''Post not found'', d)
      | Some post \<Rightarrow> do {
          u \<leftarrow> req_user req;
          if post_author post \<noteq> user_id u \<and> user_role u \<noteq> ''admin''
          then Some (failure 403 ''Not authorized to update this post'', d)
          else do {
            let p1 = setIfTruthy (body_title b) (\<lambda>v p. p\<lparr>post_title := v\<rparr>) post;
            let p2 = setIfTruthy (body_content b) (\<lambda>v p. p\<lparr>post_content := v\<rparr>) p1;
            let p3 = setIfDefined (body_excerpt b) (\<lambda>v p. p\<lparr>post_excerpt := Some v\<rparr>) p2;
            p4 \<leftarrow> (case body_category b of
                     None \<Rightarrow> Some p3
                   | Some c \<Rightarrow>
                       if c = [] then Some p3
                       else map_option (\<lambda>oid. p3\<lparr>post_category := oid\<rparr>)
                              (castObjectId (StringValue c)));
            let p5 = setIfDefined (body_tags b) (\<lambda>v p. p\<lparr>post_tags := v\<rparr>) p4;
            let p6 = setIfDefined (body_isPublished b) (\<lambda>v p. p\<lparr>post_isPublished := v\<rparr>) p5;
            let p7 = setIfDefined (req_file req) (\<lambda>v p. p\<lparr>post_featuredImage := v\<rparr>) p6;
            d1 \<leftarrow> Post_save d p7;
            populatedPost \<leftarrow> Post_findById d1 (ObjectIdValue (post_id p7));
            Some (succeed 200 (PostData populatedPost), d1)
          }
        })
   })"

definition deletePost :: "db \<Rightarrow> request \<Rightarrow> response \<times> db" where
  "deletePost d req = tryCatch d (do {
     let id = req_params_id req;
     found \<leftarrow> Post_findById d (StringValue id);
     (case found of
        None \<Rightarrow> Some (failure 404 ''Post not found'', d)
      | Some post \<Rightarrow> do {
          u \<leftarrow> req_user req;
          if post_author post \<noteq> user_id u \<and> user_role u \<noteq> ''admin''
          then Some (failure 403 ''Not authorized to delete this post'', d)
          else do {
            d1 \<leftarrow> Post_findByIdAndDelete d (StringValue id);
            Some (succeedMessage ''Post deleted successfully'', d1)
          }
        })
   })"

definition addComment :: "db \<Rightarrow> request \<Rightarrow> response \<times> db" where
  "addComment d req = tryCatch d (do {
     let id = req_params_id req;
     found \<leftarrow> Post_findById d (StringValue id);
     (case found of
        None \<Rightarrow> Some (failure 404 ''Post not found'', d)
      | Some post \<Rightarrow> do {
          u \<leftarrow> req_user req;
          d1 \<leftarrow> post_addComment d post (user_id u) (body_content (req_body req));
          updatedPost \<leftarrow> Post_findById d1 (StringValue id);
          Some (succeed 200 (PostData updatedPost), d1)
        })
   })"

definition searchPosts :: "db \<Rightarrow> request \<Rightarrow> response \<times> db" where
  "searchPosts d req = tryCatch d (do {
     let query = queryParam req ''q'';
     let page = parseIntOr (queryParam req ''page'') 1;
     let limit = parseIntOr (queryParam req ''limit'') 10;
     (case query of
        None \<Rightarrow> Some (failure 400 ''Search query is required'', d)
      | Some q \<Rightarrow>
          if q = [] then Some (failure 400 ''Search query is required'', d)
          else do {
            let searchQuery = PostAnd
              [PostIsPublished True,
               PostOr [PostRegex Title q ''i'', PostRegex Content q ''i'',
                       PostRegex Excerpt q ''i'', PostTagsIn q ''i'']];
            let skip = (page - 1) * limit;
            posts \<leftarrow> Post_find d searchQuery (''createdAt'', - 1) skip limit;
            total \<leftarrow> Post_countDocuments d searchQuery;
            let totalPages = ceilDiv (int total) limit;
            Some (succeedPage (PostList posts)
                    \<lparr>currentPage = page, totalPages = totalPages, totalPosts = total,
                     postsPerPage = limit, hasNextPage = None, hasPrevPage = None,
                     searchedFor = Some q\<rparr>, d)
          })
   })"

definition getMyPosts :: "db \<Rightarrow> request \<Rightarrow> response \<times> db" where
  "getMyPosts d req = tryCatch d (do {
     let page = parseIntOr (queryParam req ''page'') 1;
     let limit = parseIntOr (queryParam req ''limit'') 10;
     let skip = (page - 1) * limit;
     u \<leftarrow> req_user req;
     posts \<leftarrow> Post_find d (PostAuthor (ObjectIdValue (user_id u))) (''createdAt'', - 1) skip limit;
     total \<leftarrow> Post_countDocuments d (PostAuthor (ObjectIdValue (user_id u)));
     let totalPages = ceilDiv (int total) limit;
     Some (succeedPage (PostList posts)
             \<lparr>currentPage = page, totalPages = totalPages, totalPosts = total,
              postsPerPage = limit, hasNextPage = None, hasPrevPage = None,
              searchedFor = None\<rparr>, d)
   })"

subsection \<open>Validation\<close>

text \<open>\<open>None\<close> is the call of \<^verbatim>\<open>next()\<close>.\<close>

definition handleValidationErrors :: "request \<Rightarrow> response option" where
  "handleValidationErrors req =
     (let errors = req_validation req
      in if errors \<noteq> []
         then Some \<lparr>res_status = 400, res_success = False, res_error = None,
                    res_errors = Some (map (\<lambda>e. \<lparr>fe_field = ve_path e, fe_message = ve_msg e,
                                                   fe_value = ve_value e\<rparr>) errors),
                    res_message = None, res_data = NoData, res_pagination = None\<rparr>
         else None)"

subsection \<open>Post routes\<close>

text \<open>
  The router of \<^verbatim>\<open>routes/posts.js\<close>: the routes in the order of their registration, each
  with its method, its path and its stack of handlers. A path is its list of segments;
  a literal segment matches without regard to case and a parameter matches any non-empty
  segment, as the router does by default.
\<close>

datatype httpMethod = GET | POST | PUT | DELETE

datatype segment = Literal string | Param string

datatype handler =
    HGetAllPosts | HSearchPosts | HGetPost | HGetMyPosts | HCreatePost | HUpdatePost
  | HDeletePost | HAddComment | HProtect | HUploadSingle | HValidatePost | HValidateComment

record route =
  route_method :: httpMethod
  route_path :: "segment list"
  route_stack :: "handler list"

definition router :: "route list" where
  "router =
     [\<lparr>route_method = GET, route_path = [], route_stack = [HGetAllPosts]\<rparr>,
      \<lparr>route_method = GET, route_path = [Literal ''search''], route_stack = [HSearchPosts]\<rparr>,
      \<lparr>route_method = GET, route_path = [Param ''id''], route_stack = [HGetPost]\<rparr>,
      \<lparr>route_method = GET, route_path = [Literal ''my-posts''],
        route_stack = [HProtect, HGetMyPosts]\<rparr>,
      \<lparr>route_method = POST, route_path = [],
        route_stack = [HProtect, HUploadSingle, HValidatePost, HCreatePost]\<rparr>,
      \<lparr>route_method = PUT, route_path = [Param ''id''],
        route_stack = [HProtect, HUploadSingle, HValidatePost, HUpdatePost]\<rparr>,
      \<lparr>route_method = DELETE, route_path = [Param ''id''],
        route_stack = [HProtect, HDeletePost]\<rparr>,
      \<lparr>route_method = POST, route_path = [Param ''id'', Literal ''comments''],
        route_stack = [HProtect, HValidateComment, HAddComment]\<rparr>]"

fun matchPath :: "segment list \<Rightarrow> string list \<Rightarrow> (string \<times> string) list option" where
  "matchPath [] [] = Some []"
| "matchPath (Literal l # ss) (x # xs) =
     (if map toLowerCase l = map toLowerCase x then matchPath ss xs else None)"
| "matchPath (Param n # ss) (x # xs) =
     (if x = [] then None else map_option (\<lambda>ps. (n, x) # ps) (matchPath ss xs))"
| "matchPath _ _ = None"

text \<open>A handler either answers, which ends the request, or calls \<^verbatim>\<open>next()\<close>.\<close>

datatype outcome = Respond response db | Next

text \<open>
  Modelled from the spec: the middleware \<^verbatim>\<open>protect\<close> of \<^verbatim>\<open>middleware/auth.js\<close> and
  \<^verbatim>\<open>uploadSingle\<close> of \<^verbatim>\<open>middleware/upload.js\<close>, which are not among the sources. A request
  that carries no authenticated user is answered as unauthorized; the upload middleware
  passes the request on. The validation chains end in \<open>handleValidationErrors\<close>; the
  controllers never call \<^verbatim>\<open>next()\<close>.
\<close>

fun runHandler :: "env \<Rightarrow> handler \<Rightarrow> db \<Rightarrow> request \<Rightarrow> outcome" where
  "runHandler e HGetAllPosts d req = (case getAllPosts d req of (r, d') \<Rightarrow> Respond r d')"
| "runHandler e HSearchPosts d req = (case searchPosts d req of (r, d') \<Rightarrow> Respond r d')"
| "runHandler e HGetPost d req = (case getPost d req of (r, d') \<Rightarrow> Respond r d')"
| "runHandler e HGetMyPosts d req = (case getMyPosts d req of (r, d') \<Rightarrow> Respond r d')"
| "runHandler e HCreatePost d req = (case createPost e d req of (r, d') \<Rightarrow> Respond r d')"
| "runHandler e HUpdatePost d req = (case updatePost d req of (r, d') \<Rightarrow> Respond r d')"
| "runHandler e HDeletePost d req = (case deletePost d req of (r, d') \<Rightarrow> Respond r d')"
| "runHandler e HAddComment d req = (case addComment d req of (r, d') \<Rightarrow> Respond r d')"
| "runHandler e HProtect d req =
     (case req_user req of
        None \<Rightarrow> Respond (failure 401 ''Not authorized to access this route'') d
      | Some u \<Rightarrow> Next)"
| "runHandler e HUploadSingle d req = Next"
| "runHandler e HValidatePost d req =
     (case handleValidationErrors req of Some r \<Rightarrow> Respond r d | None \<Rightarrow> Next)"
| "runHandler e HValidateComment d req =
     (case handleValidationErrors req of Some r \<Rightarrow> Respond r d | None \<Rightarrow> Next)"

fun runStack :: "env \<Rightarrow> handler list \<Rightarrow> db \<Rightarrow> request \<Rightarrow> (response \<times> db) option" where
  "runStack e [] d req = None"
| "runStack e (h # hs) d req =
     (case runHandler e h d req of
        Respond r d' \<Rightarrow> Some (r, d')
      | Next \<Rightarrow> runStack e hs d req)"

text \<open>
  The router tries its routes in order. The first route whose method and path match runs
  its stack with the parameters of the match; only a stack that calls \<^verbatim>\<open>next()\<close> to its
  end lets a later route see the request. \<open>None\<close>: no route answered.
\<close>

fun serve ::
  "env \<Rightarrow> route list \<Rightarrow> db \<Rightarrow> httpMethod \<Rightarrow> string list \<Rightarrow> request \<Rightarrow> (response \<times> db) option" where
  "serve e [] d m path req = None"
| "serve e (r # rs) d m path req =
     (if route_method r = m
      then (case matchPath (route_path r) path of
              None \<Rightarrow> serve e rs d m path req
            | Some params \<Rightarrow>
                (case runStack e (route_stack r) d
                        (case map_of params ''id'' of
                           None \<Rightarrow> req
                         | Some v \<Rightarrow> req\<lparr>req_params_id := v\<rparr>) of
                   Some out \<Rightarrow> Some out
                 | None \<Rightarrow> serve e rs d m path req))
      else serve e rs d m path req)"

text \<open>The route that answers, for reading the router alone.\<close>

definition firstMatch :: "route list \<Rightarrow> httpMethod \<Rightarrow> string list \<Rightarrow> route option" where
  "firstMatch rs m path =
     find (\<lambda>r. route_method r = m \<and> matchPath (route_path r) path \<noteq> None) rs"

subsection \<open>The response envelope\<close>

text \<open>
  An error response is one with a status from 400 up, a success response one below. The
  envelope: an error response has \<^verbatim>\<open>success: false\<close> and one of the keys \<^verbatim>\<open>error\<close> and
  \<^verbatim>\<open>errors\<close>; a success response has \<^verbatim>\<open>success: true\<close>.
\<close>

definition uniformEnvelope :: "response \<Rightarrow> bool" where
  "uniformEnvelope r =
     (if 400 \<le> res_status r
      then \<not> res_success r \<and> (res_error r \<noteq> None \<or> res_errors r \<noteq> None)
      else res_success r)"

subsection \<open>What a text search selects, in the words of the specification\<close>

text \<open>
  The specification's description of the posts that a search text selects, for comparison
  with the query conditions that the two handlers build: the published posts whose title,
  content, excerpt or some tag is matched by the compiled pattern \<open>m\<close>.
\<close>

definition matchesSearch :: "(string \<Rightarrow> bool) \<Rightarrow> post \<Rightarrow> bool" where
  "matchesSearch m p =
     (post_isPublished p \<and>
      (m (post_title p) \<or> m (post_content p)
       \<or> (case post_excerpt p of None \<Rightarrow> False | Some e \<Rightarrow> m e)
       \<or> list_ex m (post_tags p)))"



text \<open>The posts whose tags alone are asked: published, and some tag is matched.\<close>

definition matchesTag :: "(string \<Rightarrow> bool) \<Rightarrow> post \<Rightarrow> bool" where
  "matchesTag m p = (post_isPublished p \<and> list_ex m (post_tags p))"

text \<open>Page \<open>page\<close> of a list cut into pages of \<open>limit\<close> entries (both from 1 up).\<close>

definition pageOf :: "int \<Rightarrow> int \<Rightarrow> 'a list \<Rightarrow> 'a list" where
  "pageOf page limit xs = take (nat limit) (drop (nat ((page - 1) * limit)) xs)"

subsection \<open>A sample store\<close>

text \<open>
  A regular expression engine for concrete inputs: it reads a pattern as literal text and
  looks for it anywhere in the subject, without regard to case under the option \<^verbatim>\<open>i\<close>.
  On patterns of letters and digits it agrees with the engines of the server and of the
  language.
\<close>

fun startsWith :: "string \<Rightarrow> string \<Rightarrow> bool" where
  "startsWith [] s = True"
| "startsWith (c # cs) [] = False"
| "startsWith (c # cs) (x # xs) = (c = x \<and> startsWith cs xs)"

fun containsText :: "string \<Rightarrow> string \<Rightarrow> bool" where
  "containsText pat [] = (pat = [])"
| "containsText pat (x # xs) = (startsWith pat (x # xs) \<or> containsText pat xs)"

definition literalEngine :: regexEngine where
  "literalEngine pat opts =
     Some (\<lambda>s. if CHR ''i'' \<in> set opts
                then containsText (map toLowerCase pat) (map toLowerCase s)
                else containsText pat s)"

definition alice :: user where
  "alice = \<lparr>user_id = ''aaaaaaaaaaaaaaaaaaaaaaaa'', user_role = ''user''\<rparr>"

definition bob :: user where
  "bob = \<lparr>user_id = ''bbbbbbbbbbbbbbbbbbbbbbbb'', user_role = ''user''\<rparr>"

definition carol :: user where
  "carol = \<lparr>user_id = ''cccccccccccccccccccccccc'', user_role = ''admin''\<rparr>"

definition tech :: category where
  "tech = \<lparr>cat_id = ''111111111111111111111111'', cat_name = ''Tech'', cat_slug = ''tech'',
            cat_description = None, cat_color = None, cat_icon = None, cat_isActive = True\<rparr>"

definition art :: category where
  "art = \<lparr>cat_id = ''222222222222222222222222'', cat_name = ''Art'', cat_slug = ''art'',
           cat_description = None, cat_color = None, cat_icon = None, cat_isActive = True\<rparr>"

definition retired :: category where
  "retired = \<lparr>cat_id = ''333333333333333333333333'', cat_name = ''Old'', cat_slug = ''old'',
               cat_description = None, cat_color = None, cat_icon = None, cat_isActive = False\<rparr>"

definition hello :: post where
  "hello = \<lparr>post_id = ''0000000000000000000000a1'', post_title = ''Hello'',
             post_content = ''first words'', post_excerpt = None, post_slug = ''hello'',
             post_featuredImage = ''default-post.jpg'', post_isPublished = True,
             post_viewCount = 3, post_tags = [''news''], post_comments = [],
             post_author = ''aaaaaaaaaaaaaaaaaaaaaaaa'',
             post_category = ''111111111111111111111111'', post_createdAt = 100\<rparr>"

definition world :: post where
  "world = \<lparr>post_id = ''0000000000000000000000a2'', post_title = ''World'',
             post_content = ''second text'', post_excerpt = Some ''short'', post_slug = ''world'',
             post_featuredImage = ''default-post.jpg'', post_isPublished = True,
             post_viewCount = 0, post_tags = [''News'', ''misc''], post_comments = [],
             post_author = ''bbbbbbbbbbbbbbbbbbbbbbbb'',
             post_category = ''111111111111111111111111'', post_createdAt = 200\<rparr>"

definition draft :: post where
  "draft = \<lparr>post_id = ''0000000000000000000000a3'', post_title = ''Plans'',
             post_content = ''not yet'', post_excerpt = None,
             post_slug = ''abcdefabcdefabcdefabcdef'',
             post_featuredImage = ''default-post.jpg'', post_isPublished = False,
             post_viewCount = 0, post_tags = [''news''], post_comments = [],
             post_author = ''aaaaaaaaaaaaaaaaaaaaaaaa'',
             post_category = ''111111111111111111111111'', post_createdAt = 300\<rparr>"

definition blog :: db where
  "blog = \<lparr>db_posts = [hello, world, draft], db_categories = [tech, art, retired],
            db_regex = literalEngine, db_connected = True\<rparr>"

definition noBody :: body where
  "noBody = \<lparr>body_title = None, body_content = None, body_excerpt = None,
              body_category = None, body_tags = None, body_isPublished = None,
              body_name = None, body_description = None, body_color = None,
              body_icon = None, body_isActive = None\<rparr>"

text \<open>A request with the given route parameter, query string and user, and nothing else.\<close>

definition request :: "string \<Rightarrow> (string \<times> string) list \<Rightarrow> user option \<Rightarrow> request" where
  "request ident qs u =
     \<lparr>req_params_id = ident, req_query = qs, req_body = noBody, req_user = u,
      req_file = None, req_validation = []\<rparr>"

section \<open>Properties\<close>

subsection \<open>Auxiliary facts\<close>

lemma roundToDouble_small [simp]: "n < 9007199254740992 \<Longrightarrow> roundToDouble n = n"
  by (simp add: roundToDouble_def)

text \<open>The rounding of \<^verbatim>\<open>parseInt\<close> just beyond \<open>2^53\<close>.\<close>

lemma bitLength_54: "bitLength 9007199254740993 = 54"
  by (simp add: bitLength.simps)

lemma parseInt_rounds: "parseInt ''9007199254740993'' = Some 9007199254740992"
  by (simp add: parseInt_def isWhiteSpace_def radixDigit_def digitValue_def digitsValue_def
        roundToDouble_def bitLength_54)

lemma tryCatch_Some: "tryCatch d (Some x) = x"
  by (simp add: tryCatch_def)

lemma tryCatch_None: "tryCatch d None = (failure 500 ''Server error'', d)"
  by (simp add: tryCatch_def)

lemma Category_findById_SomeD:
  assumes "Category_findById d v = Some (Some c)"
  shows "db_connected d" and "castObjectId v = Some (cat_id c)" and "c \<in> set (db_categories d)"
  using assms
  by (auto simp: Category_findById_def Category_findOne_def find_Some_iff in_set_conv_nth
           split: if_splits)

lemma Post_findById_SomeD:
  assumes "Post_findById d v = Some (Some p)"
  shows "db_connected d" and "castObjectId v = Some (post_id p)" and "p \<in> set (db_posts d)"
  using assms
  by (auto simp: Post_findById_def Post_findOne_def find_Some_iff in_set_conv_nth
           split: if_splits)

subsection \<open>Categories\<close>

text \<open>
  Claim C10. Listing all categories returns only the categories whose active flag is set,
  each of them once, sorted by name in ascending order; a category that is not active is
  never in the result. (While the store cannot be reached the answer is the server error,
  which carries no category at all.)
\<close>

theorem getAllCategories_active_sorted:
  "(db_connected d \<longrightarrow>
      (\<exists>cs. getAllCategories d req = (succeed 200 (CategoryList cs), d)
          \<and> set cs = {c \<in> set (db_categories d). cat_isActive c}
          \<and> length cs = length (filter cat_isActive (db_categories d))
          \<and> sorted (map cat_name cs)))
   \<and> (\<not> db_connected d \<longrightarrow> getAllCategories d req = (failure 500 ''Server error'', d))"
proof (intro conjI impI)
  assume c: "db_connected d"
  let ?cs = "sort_key cat_name (filter (categoryQuery_holds (CategoryIsActive True)) (db_categories d))"
  have f: "filter (categoryQuery_holds (CategoryIsActive True)) (db_categories d)
             = filter cat_isActive (db_categories d)"
    by (rule filter_cong) simp_all
  have "getAllCategories d req = (succeed 200 (CategoryList ?cs), d)"
    using c by (simp add: getAllCategories_def Category_find_def tryCatch_def)
  moreover have "set ?cs = {c \<in> set (db_categories d). cat_isActive c}"
    by (simp add: f)
  moreover have "length ?cs = length (filter cat_isActive (db_categories d))"
    by (simp add: f)
  moreover have "sorted (map cat_name ?cs)"
    by (rule sorted_sort_key)
  ultimately show "\<exists>cs. getAllCategories d req = (succeed 200 (CategoryList cs), d)
          \<and> set cs = {c \<in> set (db_categories d). cat_isActive c}
          \<and> length cs = length (filter cat_isActive (db_categories d))
          \<and> sorted (map cat_name cs)"
    by blast
next
  assume "\<not> db_connected d"
  then show "getAllCategories d req = (failure 500 ''Server error'', d)"
    by (simp add: getAllCategories_def Category_find_def tryCatch_def)
qed

theorem getAllCategories_active_sorted_witness:
  "db_connected blog \<and>
   (\<exists>cs. getAllCategories blog (request [] [] None) = (succeed 200 (CategoryList cs), blog)
       \<and> set cs = {c \<in> set (db_categories blog). cat_isActive c}
       \<and> length cs = length (filter cat_isActive (db_categories blog))
       \<and> sorted (map cat_name cs))"
  using getAllCategories_active_sorted [of blog "request [] [] None"]
  by (simp add: blog_def)

text \<open>
  Claim C4. Deleting a category that at least one post refers to is rejected with an error
  response and the store, the category included, stays as it was; deleting an existing
  category that no post refers to succeeds and removes it.
\<close>

theorem deleteCategory_guard:
  assumes "Category_findById d (StringValue (req_params_id req)) = Some (Some c)"
  shows "((\<exists>p \<in> set (db_posts d). post_category p = cat_id c) \<longrightarrow>
            res_status (fst (deleteCategory d req)) = 400
          \<and> \<not> res_success (fst (deleteCategory d req))
          \<and> res_error (fst (deleteCategory d req)) \<noteq> None
          \<and> snd (deleteCategory d req) = d)
       \<and> ((\<forall>p \<in> set (db_posts d). post_category p \<noteq> cat_id c) \<longrightarrow>
            deleteCategory d req =
              (succeedMessage ''Category deleted successfully'',
               d\<lparr>db_categories := filter (\<lambda>x. cat_id x \<noteq> cat_id c) (db_categories d)\<rparr>)
          \<and> c \<notin> set (db_categories (snd (deleteCategory d req)))
          \<and> Category_findById (snd (deleteCategory d req)) (StringValue (req_params_id req))
              = Some None)"
proof -
  note facts = Category_findById_SomeD [OF assms]
  let ?n = "length (filter (postQuery_holds (db_regex d) (PostCategory (StringValue (req_params_id req)))) (db_posts d))"
  have count: "Post_countDocuments d (PostCategory (StringValue (req_params_id req))) = Some ?n"
    using facts by (simp add: Post_countDocuments_def)
  have holds: "postQuery_holds (db_regex d) (PostCategory (StringValue (req_params_id req))) p
                 \<longleftrightarrow> post_category p = cat_id c" for p
    using facts(2) by auto
  have pos: "0 < ?n \<longleftrightarrow> (\<exists>p \<in> set (db_posts d). post_category p = cat_id c)"
    unfolding length_greater_0_conv filter_empty_conv holds by blast
  have del: "Category_findByIdAndDelete d (StringValue (req_params_id req))
               = Some (d\<lparr>db_categories := filter (\<lambda>x. cat_id x \<noteq> cat_id c) (db_categories d)\<rparr>)"
  proof -
    have "filter (\<lambda>x. castObjectId (StringValue (req_params_id req)) \<noteq> Some (cat_id x)) (db_categories d)
            = filter (\<lambda>x. cat_id x \<noteq> cat_id c) (db_categories d)"
      unfolding facts(2) by (rule filter_cong) auto
    moreover have "Category_findByIdAndDelete d (StringValue (req_params_id req))
       = Some (d\<lparr>db_categories := filter (\<lambda>x. castObjectId (StringValue (req_params_id req)) \<noteq> Some (cat_id x)) (db_categories d)\<rparr>)"
      unfolding Category_findByIdAndDelete_def using facts(1,2) by (simp del: castObjectId.simps)
    ultimately show ?thesis
      by (simp only:)
  qed
  have blocked: "deleteCategory d req =
      (failure 400 (''Cannot delete category. It has '' @ showNat ?n @ '' associated posts.''), d)"
    if "0 < ?n"
    using that assms count by (simp add: deleteCategory_def tryCatch_def)
  have removed: "deleteCategory d req =
      (succeedMessage ''Category deleted successfully'',
       d\<lparr>db_categories := filter (\<lambda>x. cat_id x \<noteq> cat_id c) (db_categories d)\<rparr>)"
    if "\<not> 0 < ?n"
    using that assms count del by (simp add: deleteCategory_def tryCatch_def)
  have gone: "Category_findById (d\<lparr>db_categories := filter (\<lambda>x. cat_id x \<noteq> cat_id c) (db_categories d)\<rparr>)
                (StringValue (req_params_id req)) = Some None"
    using facts by (auto simp: Category_findById_def Category_findOne_def find_None_iff)
  show ?thesis
  proof (intro conjI impI)
    assume "\<exists>p \<in> set (db_posts d). post_category p = cat_id c"
    then have n: "0 < ?n" using pos by blast
    show "res_status (fst (deleteCategory d req)) = 400"
      by (simp add: blocked [OF n] failure_def)
    show "\<not> res_success (fst (deleteCategory d req))"
      by (simp add: blocked [OF n] failure_def)
    show "res_error (fst (deleteCategory d req)) \<noteq> None"
      by (simp add: blocked [OF n] failure_def)
    show "snd (deleteCategory d req) = d"
      by (simp add: blocked [OF n])
  next
    assume "\<forall>p \<in> set (db_posts d). post_category p \<noteq> cat_id c"
    then have n: "\<not> 0 < ?n" using pos by blast
    show "deleteCategory d req =
              (succeedMessage ''Category deleted successfully'',
               d\<lparr>db_categories := filter (\<lambda>x. cat_id x \<noteq> cat_id c) (db_categories d)\<rparr>)"
      by (rule removed [OF n])
    show "c \<notin> set (db_categories (snd (deleteCategory d req)))"
      by (simp add: removed [OF n])
    show "Category_findById (snd (deleteCategory d req)) (StringValue (req_params_id req)) = Some None"
      by (simp add: removed [OF n] gone)
  qed
qed

theorem deleteCategory_guard_witness:
  "Category_findById blog (StringValue (req_params_id (request ''111111111111111111111111'' [] (Some carol))))
     = Some (Some tech)
   \<and> hello \<in> set (db_posts blog) \<and> post_category hello = cat_id tech
   \<and> res_status (fst (deleteCategory blog (request ''111111111111111111111111'' [] (Some carol)))) = 400
   \<and> snd (deleteCategory blog (request ''111111111111111111111111'' [] (Some carol))) = blog
   \<and> Category_findById blog (StringValue (req_params_id (request ''222222222222222222222222'' [] (Some carol))))
     = Some (Some art)
   \<and> filter (\<lambda>p. post_category p = cat_id art) (db_posts blog) = []
   \<and> art \<notin> set (db_categories (snd (deleteCategory blog (request ''222222222222222222222222'' [] (Some carol)))))"
proof -
  have a: "Category_findById blog (StringValue (req_params_id (request ''111111111111111111111111'' [] (Some carol))))
     = Some (Some tech)"
    by (simp add: Category_findById_def Category_findOne_def blog_def request_def tech_def art_def
          retired_def isObjectId_def toLowerCase_def)
  have b: "Category_findById blog (StringValue (req_params_id (request ''222222222222222222222222'' [] (Some carol))))
     = Some (Some art)"
    by (simp add: Category_findById_def Category_findOne_def blog_def request_def tech_def art_def
          retired_def isObjectId_def toLowerCase_def)
  have c: "hello \<in> set (db_posts blog) \<and> post_category hello = cat_id tech"
    by (simp add: blog_def hello_def tech_def)
  have e: "filter (\<lambda>p. post_category p = cat_id art) (db_posts blog) = []"
    by (simp add: blog_def hello_def world_def draft_def art_def)
  then have e': "\<forall>p \<in> set (db_posts blog). post_category p \<noteq> cat_id art"
    by (simp add: filter_empty_conv)
  show ?thesis
    using deleteCategory_guard [OF a] deleteCategory_guard [OF b] a b c e e' by blast
qed

subsection \<open>Single posts\<close>

lemma Post_findOne_SomeD:
  assumes "Post_findOne d q = Some (Some p)"
  shows "db_connected d" and "postQuery_holds (db_regex d) q p" and "p \<in> set (db_posts d)"
  using assms
  by (auto simp: Post_findOne_def find_Some_iff in_set_conv_nth split: if_splits)

lemma find_map_replace:
  assumes "p \<in> set xs" and "key p' = key p"
  shows "find (\<lambda>q. key q = key p) (map (\<lambda>q. if key q = key p then p' else q) xs) = Some p'"
  using assms by (induction xs) auto

lemmas sample_defs =
  blog_def hello_def world_def draft_def tech_def art_def retired_def alice_def bob_def carol_def
  request_def literalEngine_def

text \<open>
  Claim C3. Whenever the single-post operation finds a published post, the stored view
  count of that post goes up by exactly one, whoever the reader is; when it finds a post
  that is not published, the store, and with it the view count, stays as it was.
\<close>

theorem getPost_view_count:
  assumes "Post_findOne d (if isObjectId (req_params_id req)
                           then PostId (StringValue (req_params_id req))
                           else PostSlug (req_params_id req)) = Some (Some p)"
  shows "(post_isPublished p \<longrightarrow>
            getPost d req =
              (succeed 200 (PostData (Some (p\<lparr>post_viewCount := post_viewCount p + 1\<rparr>))),
               d\<lparr>db_posts := map (\<lambda>q. if post_id q = post_id p
                                       then p\<lparr>post_viewCount := post_viewCount p + 1\<rparr> else q)
                                 (db_posts d)\<rparr>)
          \<and> Post_findById (snd (getPost d req)) (ObjectIdValue (post_id p))
              = Some (Some (p\<lparr>post_viewCount := post_viewCount p + 1\<rparr>)))
       \<and> (\<not> post_isPublished p \<longrightarrow> getPost d req = (succeed 200 (PostData (Some p)), d))
       \<and> getPost d (req\<lparr>req_user := u\<rparr>) = getPost d req"
proof -
  note facts = Post_findOne_SomeD [OF assms]
  let ?p' = "p\<lparr>post_viewCount := post_viewCount p + 1\<rparr>"
  let ?d' = "d\<lparr>db_posts := map (\<lambda>q. if post_id q = post_id p then ?p' else q) (db_posts d)\<rparr>"
  have pub: "getPost d req = (succeed 200 (PostData (Some ?p')), ?d')" if "post_isPublished p"
    using that assms facts(1)
    by (simp add: getPost_def incrementViewCount_def Post_save_def tryCatch_def Let_def)
  have unpub: "getPost d req = (succeed 200 (PostData (Some p)), d)" if "\<not> post_isPublished p"
    using that assms by (simp add: getPost_def tryCatch_def Let_def)
  have "find (\<lambda>q. post_id q = post_id p)
          (map (\<lambda>q. if post_id q = post_id p then ?p' else q) (db_posts d)) = Some ?p'"
    by (rule find_map_replace [OF facts(3)]) simp
  moreover have "postQuery_holds (db_regex d) (PostId (ObjectIdValue (post_id p)))
                   = (\<lambda>q. post_id q = post_id p)"
    by (auto simp: fun_eq_iff)
  ultimately have stored: "Post_findById ?d' (ObjectIdValue (post_id p)) = Some (Some ?p')"
    using facts(1) by (simp add: Post_findById_def Post_findOne_def)
  have anyone: "getPost d (req\<lparr>req_user := u\<rparr>) = getPost d req"
    by (simp add: getPost_def)
  show ?thesis
    using pub unpub stored anyone by simp
qed

theorem getPost_view_count_witness:
  "Post_findOne blog (PostSlug ''hello'') = Some (Some hello)
   \<and> post_isPublished hello \<and> post_viewCount hello = 3
   \<and> getPost blog (request ''hello'' [] None) =
        (succeed 200 (PostData (Some (hello\<lparr>post_viewCount := 4\<rparr>))),
         blog\<lparr>db_posts := [hello\<lparr>post_viewCount := 4\<rparr>, world, draft]\<rparr>)
   \<and> Post_findOne blog (PostId (StringValue ''0000000000000000000000a3'')) = Some (Some draft)
   \<and> \<not> post_isPublished draft
   \<and> getPost blog (request ''0000000000000000000000a3'' [] (Some bob)) =
        (succeed 200 (PostData (Some draft)), blog)"
proof -
  have a: "Post_findOne blog (if isObjectId (req_params_id (request ''hello'' [] None))
             then PostId (StringValue (req_params_id (request ''hello'' [] None)))
             else PostSlug (req_params_id (request ''hello'' [] None))) = Some (Some hello)"
    by (simp add: Post_findOne_def isObjectId_def sample_defs)
  have b: "Post_findOne blog
            (if isObjectId (req_params_id (request ''0000000000000000000000a3'' [] (Some bob)))
             then PostId (StringValue (req_params_id (request ''0000000000000000000000a3'' [] (Some bob))))
             else PostSlug (req_params_id (request ''0000000000000000000000a3'' [] (Some bob))))
           = Some (Some draft)"
    by (simp add: Post_findOne_def isObjectId_def toLowerCase_def sample_defs)
  have a': "Post_findOne blog (PostSlug ''hello'') = Some (Some hello)"
    using a by (simp add: isObjectId_def request_def)
  have b': "Post_findOne blog (PostId (StringValue ''0000000000000000000000a3'')) = Some (Some draft)"
    using b by (simp add: isObjectId_def request_def)
  have c: "post_isPublished hello \<and> post_viewCount hello = 3 \<and> \<not> post_isPublished draft"
    by (simp add: hello_def draft_def)
  have d: "blog\<lparr>db_posts := map (\<lambda>q. if post_id q = post_id hello
                                       then hello\<lparr>post_viewCount := post_viewCount hello + 1\<rparr> else q)
                                 (db_posts blog)\<rparr>
           = blog\<lparr>db_posts := [hello\<lparr>post_viewCount := 4\<rparr>, world, draft]\<rparr>"
    by (simp add: sample_defs)
  have e: "hello\<lparr>post_viewCount := post_viewCount hello + 1\<rparr> = hello\<lparr>post_viewCount := 4\<rparr>"
    by (simp add: hello_def)
  show ?thesis
    using getPost_view_count [OF a, of None] getPost_view_count [OF b, of None] a' b' c d e
    by simp
qed

text \<open>
  Claim C9. For an identifier of exactly 24 hexadecimal characters the lookups of a single
  post and of a single category go by the document identifier only: the answer is the first
  document with that identifier (read without regard to case), not-found when there is
  none, whatever the slugs in the store are. A document whose slug is such a string is
  therefore not reached through its slug.
\<close>

theorem objectId_lookup_ignores_slug:
  assumes "isObjectId (req_params_id req)"
  shows "getPost d req =
           (if db_connected d
            then (case find (\<lambda>p. post_id p = map toLowerCase (req_params_id req)) (db_posts d) of
                    None \<Rightarrow> (failure 404 ''Post not found'', d)
                  | Some p \<Rightarrow>
                      if post_isPublished p
                      then (succeed 200 (PostData (Some (p\<lparr>post_viewCount := post_viewCount p + 1\<rparr>))),
                            d\<lparr>db_posts := map (\<lambda>q. if post_id q = post_id p
                                                    then p\<lparr>post_viewCount := post_viewCount p + 1\<rparr>
                                                    else q) (db_posts d)\<rparr>)
                      else (succeed 200 (PostData (Some p)), d))
            else (failure 500 ''Server error'', d))
       \<and> getCategory d req =
           (if db_connected d
            then (case find (\<lambda>c. cat_id c = map toLowerCase (req_params_id req)) (db_categories d) of
                    None \<Rightarrow> (failure 404 ''Category not found'', d)
                  | Some c \<Rightarrow> (succeed 200 (CategoryData c), d))
            else (failure 500 ''Server error'', d))
       \<and> (\<forall>p. res_data (fst (getPost d req)) = PostData (Some p)
              \<longrightarrow> post_id p = map toLowerCase (req_params_id req))
       \<and> (\<forall>c. res_data (fst (getCategory d req)) = CategoryData c
              \<longrightarrow> cat_id c = map toLowerCase (req_params_id req))
       \<and> (db_connected d \<and> (\<forall>p \<in> set (db_posts d). post_id p \<noteq> map toLowerCase (req_params_id req))
              \<longrightarrow> getPost d req = (failure 404 ''Post not found'', d))
       \<and> (db_connected d \<and> (\<forall>c \<in> set (db_categories d). cat_id c \<noteq> map toLowerCase (req_params_id req))
              \<longrightarrow> getCategory d req = (failure 404 ''Category not found'', d))"
proof -
  let ?oid = "map toLowerCase (req_params_id req)"
  have hp: "postQuery_holds (db_regex d) (PostId (StringValue (req_params_id req)))
              = (\<lambda>p. post_id p = ?oid)"
    using assms by (auto simp: fun_eq_iff)
  have hc: "categoryQuery_holds (CategoryId (StringValue (req_params_id req)))
              = (\<lambda>c. cat_id c = ?oid)"
    using assms by (auto simp: fun_eq_iff)
  have post: "getPost d req =
           (if db_connected d
            then (case find (\<lambda>p. post_id p = ?oid) (db_posts d) of
                    None \<Rightarrow> (failure 404 ''Post not found'', d)
                  | Some p \<Rightarrow>
                      if post_isPublished p
                      then (succeed 200 (PostData (Some (p\<lparr>post_viewCount := post_viewCount p + 1\<rparr>))),
                            d\<lparr>db_posts := map (\<lambda>q. if post_id q = post_id p
                                                    then p\<lparr>post_viewCount := post_viewCount p + 1\<rparr>
                                                    else q) (db_posts d)\<rparr>)
                      else (succeed 200 (PostData (Some p)), d))
            else (failure 500 ''Server error'', d))"
    using assms
    by (simp add: getPost_def Post_findOne_def incrementViewCount_def Post_save_def tryCatch_def
          Let_def hp split: option.splits)
  have cat: "getCategory d req =
           (if db_connected d
            then (case find (\<lambda>c. cat_id c = ?oid) (db_categories d) of
                    None \<Rightarrow> (failure 404 ''Category not found'', d)
                  | Some c \<Rightarrow> (succeed 200 (CategoryData c), d))
            else (failure 500 ''Server error'', d))"
    using assms
    by (simp add: getCategory_def Category_findOne_def tryCatch_def Let_def hc
          split: option.splits)
  have idp: "post_id p = ?oid" if "res_data (fst (getPost d req)) = PostData (Some p)" for p
    using that unfolding post
    by (auto simp: failure_def succeed_def find_Some_iff split: if_splits option.splits)
  have idc: "cat_id c = ?oid" if "res_data (fst (getCategory d req)) = CategoryData c" for c
    using that unfolding cat
    by (auto simp: failure_def succeed_def find_Some_iff split: if_splits option.splits)
  have nop: "getPost d req = (failure 404 ''Post not found'', d)"
    if "db_connected d \<and> (\<forall>p \<in> set (db_posts d). post_id p \<noteq> ?oid)"
  proof -
    have "find (\<lambda>p. post_id p = ?oid) (db_posts d) = None"
      using that by (simp add: find_None_iff)
    then show ?thesis using that by (simp add: post)
  qed
  have noc: "getCategory d req = (failure 404 ''Category not found'', d)"
    if "db_connected d \<and> (\<forall>c \<in> set (db_categories d). cat_id c \<noteq> ?oid)"
  proof -
    have "find (\<lambda>c. cat_id c = ?oid) (db_categories d) = None"
      using that by (simp add: find_None_iff)
    then show ?thesis using that by (simp add: cat)
  qed
  show ?thesis
    using post cat idp idc nop noc by blast
qed

theorem objectId_lookup_ignores_slug_witness:
  "isObjectId ''abcdefabcdefabcdefabcdef''
   \<and> draft \<in> set (db_posts blog) \<and> post_slug draft = ''abcdefabcdefabcdefabcdef''
   \<and> getPost blog (request ''abcdefabcdefabcdefabcdef'' [] None) = (failure 404 ''Post not found'', blog)
   \<and> isObjectId ''0000000000000000000000A3''
   \<and> getPost blog (request ''0000000000000000000000A3'' [] None)
       = (succeed 200 (PostData (Some draft)), blog)
   \<and> getCategory blog (request ''111111111111111111111111'' [] None)
       = (succeed 200 (CategoryData tech), blog)"
proof -
  have a: "isObjectId (req_params_id (request ''abcdefabcdefabcdefabcdef'' [] None))"
    and b: "isObjectId (req_params_id (request ''0000000000000000000000A3'' [] None))"
    and c: "isObjectId (req_params_id (request ''111111111111111111111111'' [] None))"
    by (simp_all add: isObjectId_def request_def)
  have s: "draft \<in> set (db_posts blog) \<and> post_slug draft = ''abcdefabcdefabcdefabcdef''"
    by (simp add: blog_def draft_def)
  have i: "isObjectId ''abcdefabcdefabcdefabcdef'' \<and> isObjectId ''0000000000000000000000A3''"
    by (simp add: isObjectId_def)
  have "getPost blog (request ''abcdefabcdefabcdefabcdef'' [] None) = (failure 404 ''Post not found'', blog)"
    using objectId_lookup_ignores_slug [OF a, of blog]
    by (simp add: toLowerCase_def sample_defs)
  moreover have "getPost blog (request ''0000000000000000000000A3'' [] None)
       = (succeed 200 (PostData (Some draft)), blog)"
    using objectId_lookup_ignores_slug [OF b, of blog]
    by (simp add: toLowerCase_def sample_defs)
  moreover have "getCategory blog (request ''111111111111111111111111'' [] None)
       = (succeed 200 (CategoryData tech), blog)"
    using objectId_lookup_ignores_slug [OF c, of blog]
    by (simp add: toLowerCase_def sample_defs)
  ultimately show ?thesis
    using s i by simp
qed

subsection \<open>Ownership\<close>

text \<open>
  Claim C1. For an update or a delete of an existing post by an authenticated requester:
  a requester who is neither the author of the post nor an admin gets the 403 response with
  \<open>success = false\<close> and the store stays as it was; for the author and for an admin the
  authorization check passes (the update is not answered 403, the delete removes the post).
\<close>

theorem post_mutation_authorization:
  assumes "Post_findById d (StringValue (req_params_id req)) = Some (Some p)"
      and "req_user req = Some u"
  shows "(post_author p \<noteq> user_id u \<and> user_role u \<noteq> ''admin'' \<longrightarrow>
            updatePost d req = (failure 403 ''Not authorized to update this post'', d)
          \<and> deletePost d req = (failure 403 ''Not authorized to delete this post'', d))
       \<and> (post_author p = user_id u \<or> user_role u = ''admin'' \<longrightarrow>
            res_status (fst (updatePost d req)) \<noteq> 403
          \<and> deletePost d req =
              (succeedMessage ''Post deleted successfully'',
               d\<lparr>db_posts := filter (\<lambda>q. post_id q \<noteq> post_id p) (db_posts d)\<rparr>))"
proof -
  note facts = Post_findById_SomeD [OF assms(1)]
  have denied: "updatePost d req = (failure 403 ''Not authorized to update this post'', d)
              \<and> deletePost d req = (failure 403 ''Not authorized to delete this post'', d)"
    if "post_author p \<noteq> user_id u \<and> user_role u \<noteq> ''admin''"
    using that assms by (simp add: updatePost_def deletePost_def tryCatch_def Let_def)
  have "filter (\<lambda>q. castObjectId (StringValue (req_params_id req)) \<noteq> Some (post_id q)) (db_posts d)
          = filter (\<lambda>q. post_id q \<noteq> post_id p) (db_posts d)"
    unfolding facts(2) by (rule filter_cong) auto
  moreover have "Post_findByIdAndDelete d (StringValue (req_params_id req))
      = Some (d\<lparr>db_posts := filter (\<lambda>q. castObjectId (StringValue (req_params_id req)) \<noteq> Some (post_id q)) (db_posts d)\<rparr>)"
    unfolding Post_findByIdAndDelete_def using facts(1,2) by (simp del: castObjectId.simps)
  ultimately have del: "Post_findByIdAndDelete d (StringValue (req_params_id req))
      = Some (d\<lparr>db_posts := filter (\<lambda>q. post_id q \<noteq> post_id p) (db_posts d)\<rparr>)"
    by (simp only:)
  have allowed_delete: "deletePost d req =
              (succeedMessage ''Post deleted successfully'',
               d\<lparr>db_posts := filter (\<lambda>q. post_id q \<noteq> post_id p) (db_posts d)\<rparr>)"
    if "post_author p = user_id u \<or> user_role u = ''admin''"
    using that assms del by (auto simp: deletePost_def tryCatch_def Let_def)
  have allowed_update: "res_status (fst (updatePost d req)) \<noteq> 403"
    if "post_author p = user_id u \<or> user_role u = ''admin''"
    using that assms
    by (auto simp: updatePost_def tryCatch_def Let_def failure_def succeed_def
          split: option.splits if_splits bind_splits)
  show ?thesis
    using denied allowed_delete allowed_update by blast
qed

theorem post_mutation_authorization_witness:
  "Post_findById blog (StringValue ''0000000000000000000000a1'') = Some (Some hello)
   \<and> post_author hello \<noteq> user_id bob \<and> user_role bob \<noteq> ''admin''
   \<and> updatePost blog (request ''0000000000000000000000a1'' [] (Some bob))
        = (failure 403 ''Not authorized to update this post'', blog)
   \<and> deletePost blog (request ''0000000000000000000000a1'' [] (Some bob))
        = (failure 403 ''Not authorized to delete this post'', blog)
   \<and> post_author hello = user_id alice
   \<and> res_status (fst (updatePost blog (request ''0000000000000000000000a1'' [] (Some alice)))) \<noteq> 403
   \<and> user_role carol = ''admin''
   \<and> deletePost blog (request ''0000000000000000000000a1'' [] (Some carol))
        = (succeedMessage ''Post deleted successfully'', blog\<lparr>db_posts := [world, draft]\<rparr>)"
proof -
  have f: "Post_findById blog (StringValue ''0000000000000000000000a1'') = Some (Some hello)"
    by (simp add: Post_findById_def Post_findOne_def isObjectId_def toLowerCase_def sample_defs)
  have a: "Post_findById blog (StringValue (req_params_id (request ''0000000000000000000000a1'' [] u)))
             = Some (Some hello)" for u
    using f by (simp add: request_def)
  have u: "req_user (request ''0000000000000000000000a1'' [] (Some v)) = Some v" for v
    by (simp add: request_def)
  have c: "post_author hello \<noteq> user_id bob \<and> user_role bob \<noteq> ''admin''
           \<and> post_author hello = user_id alice \<and> user_role carol = ''admin''"
    by (simp add: sample_defs)
  have d: "blog\<lparr>db_posts := filter (\<lambda>q. post_id q \<noteq> post_id hello) (db_posts blog)\<rparr>
           = blog\<lparr>db_posts := [world, draft]\<rparr>"
    by (simp add: sample_defs)
  show ?thesis
    using post_mutation_authorization [OF a u, of bob, unfolded d]
      post_mutation_authorization [OF a u, of alice, unfolded d]
      post_mutation_authorization [OF a u, of carol, unfolded d] f c
    by blast
qed

subsection \<open>The envelope of every response\<close>

lemma envelope_failure: "400 \<le> c \<Longrightarrow> uniformEnvelope (failure c m)"
  by (simp add: uniformEnvelope_def failure_def)

lemma envelope_succeed: "c < 400 \<Longrightarrow> uniformEnvelope (succeed c x)"
  by (simp add: uniformEnvelope_def succeed_def)

lemma envelope_succeedPage: "uniformEnvelope (succeedPage x pg)"
  by (simp add: uniformEnvelope_def succeedPage_def succeed_def)

lemma envelope_succeedMessage: "uniformEnvelope (succeedMessage m)"
  by (simp add: uniformEnvelope_def succeedMessage_def succeed_def)

lemmas envelope_intros =
  envelope_failure envelope_succeed envelope_succeedPage envelope_succeedMessage

lemma envelope_tryCatch:
  assumes "\<And>r d'. body = Some (r, d') \<Longrightarrow> uniformEnvelope r"
  shows "uniformEnvelope (fst (tryCatch d body))"
  using assms by (cases body) (auto simp: tryCatch_def envelope_failure)

lemma envelope_getAllCategories: "uniformEnvelope (fst (getAllCategories d req))"
  unfolding getAllCategories_def
  by (rule envelope_tryCatch) (auto simp: envelope_intros split: bind_splits)

lemma envelope_getCategory: "uniformEnvelope (fst (getCategory d req))"
  unfolding getCategory_def
  by (rule envelope_tryCatch)
     (auto simp: envelope_intros Let_def split: bind_splits option.splits)

lemma envelope_createCategory: "uniformEnvelope (fst (createCategory e d req))"
  unfolding createCategory_def
  by (rule envelope_tryCatch)
     (auto simp: envelope_intros Let_def split: bind_splits option.splits)

lemma envelope_updateCategory: "uniformEnvelope (fst (updateCategory d req))"
  unfolding updateCategory_def
  by (rule envelope_tryCatch)
     (auto simp: envelope_intros Let_def split: bind_splits option.splits if_splits)

lemma envelope_deleteCategory: "uniformEnvelope (fst (deleteCategory d req))"
  unfolding deleteCategory_def
  by (rule envelope_tryCatch)
     (auto simp: envelope_intros Let_def split: bind_splits option.splits if_splits)

lemma envelope_getPostsByCategory: "uniformEnvelope (fst (getPostsByCategory d req))"
  unfolding getPostsByCategory_def
  by (rule envelope_tryCatch)
     (auto simp: envelope_intros Let_def split: bind_splits option.splits if_splits)

lemma envelope_getAllPosts: "uniformEnvelope (fst (getAllPosts d req))"
  unfolding getAllPosts_def
  by (rule envelope_tryCatch)
     (auto simp: envelope_intros Let_def split: bind_splits option.splits if_splits)

lemma envelope_getPost: "uniformEnvelope (fst (getPost d req))"
  unfolding getPost_def
  by (rule envelope_tryCatch)
     (auto simp: envelope_intros Let_def split: bind_splits option.splits if_splits)

lemma envelope_createPost: "uniformEnvelope (fst (createPost e d req))"
  unfolding createPost_def
  by (rule envelope_tryCatch)
     (auto simp: envelope_intros Let_def split: bind_splits option.splits if_splits)

lemma envelope_updatePost: "uniformEnvelope (fst (updatePost d req))"
  unfolding updatePost_def
  by (rule envelope_tryCatch)
     (auto simp: envelope_intros Let_def split: bind_splits option.splits if_splits)

lemma envelope_deletePost: "uniformEnvelope (fst (deletePost d req))"
  unfolding deletePost_def
  by (rule envelope_tryCatch)
     (auto simp: envelope_intros Let_def split: bind_splits option.splits if_splits)

lemma envelope_addComment: "uniformEnvelope (fst (addComment d req))"
  unfolding addComment_def
  by (rule envelope_tryCatch)
     (auto simp: envelope_intros Let_def split: bind_splits option.splits if_splits)

lemma envelope_searchPosts: "uniformEnvelope (fst (searchPosts d req))"
  unfolding searchPosts_def
  by (rule envelope_tryCatch)
     (auto simp: envelope_intros Let_def split: bind_splits option.splits if_splits)

lemma envelope_getMyPosts: "uniformEnvelope (fst (getMyPosts d req))"
  unfolding getMyPosts_def
  by (rule envelope_tryCatch)
     (auto simp: envelope_intros Let_def split: bind_splits option.splits if_splits)

lemma envelope_handleValidationErrors:
  "handleValidationErrors req = Some r \<Longrightarrow> uniformEnvelope r"
  by (auto simp: handleValidationErrors_def uniformEnvelope_def Let_def split: if_splits)

text \<open>
  Claim C8. Every response of a category handler, of a post handler and of the validation
  step is in the uniform envelope: an error response (validation failure, not found,
  forbidden, conflict, server error) has \<open>success = false\<close> and an \<open>error\<close> text or an
  \<open>errors\<close> list, and a success response has \<open>success = true\<close>.
\<close>

theorem uniform_envelope:
  "uniformEnvelope (fst (getAllCategories d req))
   \<and> uniformEnvelope (fst (getCategory d req))
   \<and> uniformEnvelope (fst (createCategory e d req))
   \<and> uniformEnvelope (fst (updateCategory d req))
   \<and> uniformEnvelope (fst (deleteCategory d req))
   \<and> uniformEnvelope (fst (getPostsByCategory d req))
   \<and> uniformEnvelope (fst (getAllPosts d req))
   \<and> uniformEnvelope (fst (getPost d req))
   \<and> uniformEnvelope (fst (createPost e d req))
   \<and> uniformEnvelope (fst (updatePost d req))
   \<and> uniformEnvelope (fst (deletePost d req))
   \<and> uniformEnvelope (fst (addComment d req))
   \<and> uniformEnvelope (fst (searchPosts d req))
   \<and> uniformEnvelope (fst (getMyPosts d req))
   \<and> (case handleValidationErrors req of None \<Rightarrow> True | Some r \<Rightarrow> uniformEnvelope r)"
  by (intro conjI envelope_getAllCategories envelope_getCategory envelope_createCategory
        envelope_updateCategory envelope_deleteCategory envelope_getPostsByCategory
        envelope_getAllPosts envelope_getPost envelope_createPost envelope_updatePost
        envelope_deletePost envelope_addComment envelope_searchPosts envelope_getMyPosts)
     (simp add: envelope_handleValidationErrors split: option.split)

theorem uniform_envelope_witness:
  "res_status (fst (getPost blog (request ''nothing'' [] None))) = 404
   \<and> \<not> res_success (fst (getPost blog (request ''nothing'' [] None)))
   \<and> res_error (fst (getPost blog (request ''nothing'' [] None))) = Some ''Post not found''
   \<and> res_status (fst (getPost blog (request ''hello'' [] None))) = 200
   \<and> res_success (fst (getPost blog (request ''hello'' [] None)))"
proof -
  have a: "res_status (fst (getPost blog (request ''nothing'' [] None))) = 404
        \<and> res_error (fst (getPost blog (request ''nothing'' [] None))) = Some ''Post not found''"
    by (simp add: getPost_def Post_findOne_def tryCatch_def failure_def isObjectId_def sample_defs)
  have b: "res_status (fst (getPost blog (request ''hello'' [] None))) = 200"
    by (simp add: getPost_def Post_findOne_def incrementViewCount_def Post_save_def tryCatch_def
          succeed_def isObjectId_def Let_def sample_defs)
  show ?thesis
    using uniform_envelope [of blog "request ''nothing'' [] None"]
      uniform_envelope [of blog "request ''hello'' [] None"] a b
    by (simp add: uniformEnvelope_def)
qed

subsection \<open>Pages\<close>

lemma length_Query_sort: "length (Query_sort f order ps) = length ps"
  by (simp add: Query_sort_def)

lemma set_Query_sort: "set (Query_sort f order ps) = set ps"
  by (simp add: Query_sort_def)



lemmas parse_defs =
  parseIntOr_def parseInt_def isWhiteSpace_def radixDigit_def digitValue_def digitsValue_def
  queryParam_def

lemmas query_defs =
  Post_find_def Post_countDocuments_def Query_skip_limit_def Query_sort_def post_sortKey_def
  ceilDiv_def orDefault_def setIfTruthy_def





subsection \<open>Routing\<close>

text \<open>Whatever the store and the request, the router hands a GET for \<^verbatim>\<open>/my-posts\<close> to
  the single-post handler.\<close>

lemma serve_my_posts:
  "serve e router d GET [''my-posts''] req = Some (getPost d (req\<lparr>req_params_id := ''my-posts''\<rparr>))"
  by (simp add: router_def toLowerCase_def split: prod.split)

text \<open>The handler behind \<^verbatim>\<open>/my-posts\<close>, taken alone, returns the requested page of the
  posts of the requesting user, newest first.\<close>

lemma getMyPosts_handler:
  assumes "db_connected d" and "req_user req = Some u"
      and "0 \<le> (parseIntOr (queryParam req ''page'') 1 - 1) * parseIntOr (queryParam req ''limit'') 10"
  shows "res_data (fst (getMyPosts d req)) =
           PostList (take (nat \<bar>parseIntOr (queryParam req ''limit'') 10\<bar>)
                      (drop (nat ((parseIntOr (queryParam req ''page'') 1 - 1)
                                   * parseIntOr (queryParam req ''limit'') 10))
                         (Query_sort ''createdAt'' (- 1)
                            (filter (\<lambda>p. post_author p = user_id u) (db_posts d)))))"
    and "res_success (fst (getMyPosts d req))"
proof -
  have f: "filter (postQuery_holds (db_regex d) (PostAuthor (ObjectIdValue (user_id u)))) (db_posts d)
         = filter (\<lambda>p. post_author p = user_id u) (db_posts d)"
    by (rule filter_cong) auto
  have l: "parseIntOr (queryParam req ''limit'') 10 \<noteq> 0"
    by (simp add: parseIntOr_def split: option.splits)
  show "res_data (fst (getMyPosts d req)) =
           PostList (take (nat \<bar>parseIntOr (queryParam req ''limit'') 10\<bar>)
                      (drop (nat ((parseIntOr (queryParam req ''page'') 1 - 1)
                                   * parseIntOr (queryParam req ''limit'') 10))
                         (Query_sort ''createdAt'' (- 1)
                            (filter (\<lambda>p. post_author p = user_id u) (db_posts d)))))"
    using assms l
    by (simp add: getMyPosts_def tryCatch_def Post_find_def Post_countDocuments_def
          Query_skip_limit_def Let_def f succeedPage_def succeed_def)
  show "res_success (fst (getMyPosts d req))"
    using assms l
    by (simp add: getMyPosts_def tryCatch_def Post_find_def Post_countDocuments_def
          Query_skip_limit_def Let_def f succeedPage_def succeed_def)
qed

text \<open>
  Claim C2 says that a GET request for \<^verbatim>\<open>/my-posts\<close> returns the posts of the authenticated
  user. The router registers \<^verbatim>\<open>/:id\<close> before \<^verbatim>\<open>/my-posts\<close>, so the request is answered by
  the single-post handler with the identifier \<^verbatim>\<open>my-posts\<close>: a user who has posts gets
  not-found.
\<close>

theorem my_posts_route_shadowed:
  "firstMatch router GET [''my-posts'']
     = Some \<lparr>route_method = GET, route_path = [Param ''id''], route_stack = [HGetPost]\<rparr>
   \<and> serve e router d GET [''my-posts''] req
       = Some (getPost d (req\<lparr>req_params_id := ''my-posts''\<rparr>))
   \<and> serve e router blog GET [''my-posts''] (request [] [] (Some alice))
       = Some (failure 404 ''Post not found'', blog)
   \<and> hello \<in> set (db_posts blog) \<and> post_author hello = user_id alice"
proof -
  have "firstMatch router GET [''my-posts'']
     = Some \<lparr>route_method = GET, route_path = [Param ''id''], route_stack = [HGetPost]\<rparr>"
    by (simp add: firstMatch_def router_def toLowerCase_def)
  moreover have "getPost blog ((request [] [] (Some alice))\<lparr>req_params_id := ''my-posts''\<rparr>)
      = (failure 404 ''Post not found'', blog)"
    by (simp add: getPost_def Post_findOne_def tryCatch_def isObjectId_def sample_defs)
  moreover have "hello \<in> set (db_posts blog) \<and> post_author hello = user_id alice"
    by (simp add: sample_defs)
  ultimately show ?thesis
    by (simp add: serve_my_posts)
qed

subsection \<open>Search\<close>

lemma searchQuery_holds:
  assumes "re s ''i'' = Some m"
  shows "postQuery_holds re
           (PostAnd [PostIsPublished True,
                     PostOr [PostRegex Title s ''i'', PostRegex Content s ''i'',
                             PostRegex Excerpt s ''i'', PostTagsIn s ''i'']]) p
         = matchesSearch m p"
  using assms by (auto simp: matchesSearch_def split: option.splits)

lemma searchQuery_valid:
  "postQuery_valid re
           (PostAnd [PostIsPublished True,
                     PostOr [PostRegex Title s ''i'', PostRegex Content s ''i'',
                             PostRegex Excerpt s ''i'', PostTagsIn s ''i'']])
         = (re s ''i'' \<noteq> None)"
  by auto

lemma Query_skip_limit_pageOf:
  assumes "1 \<le> page" and "1 \<le> limit"
  shows "Query_skip_limit ((page - 1) * limit) limit xs = Some (pageOf page limit xs)"
proof -
  have "0 \<le> (page - 1) * limit"
    using assms by (intro mult_nonneg_nonneg) simp_all
  then have nn: "\<not> (page - 1) * limit < 0"
    by (simp only: not_less)
  have l0: "limit \<noteq> 0" and ab: "\<bar>limit\<bar> = limit"
    using assms by simp_all
  show ?thesis
    unfolding Query_skip_limit_def pageOf_def by (simp only: nn l0 ab if_False)
qed

lemma searchPosts_selected:
  assumes "queryParam req ''q'' = Some s" and "s \<noteq> []"
      and "db_connected d" and "db_regex d s ''i'' = Some m"
      and "1 \<le> parseIntOr (queryParam req ''page'') 1"
      and "1 \<le> parseIntOr (queryParam req ''limit'') 10"
  shows "res_data (fst (searchPosts d req)) =
           PostList (pageOf (parseIntOr (queryParam req ''page'') 1)
                            (parseIntOr (queryParam req ''limit'') 10)
                       (Query_sort ''createdAt'' (- 1) (filter (matchesSearch m) (db_posts d))))"
proof -
  have f: "filter (postQuery_holds (db_regex d)
             (PostAnd [PostIsPublished True,
                     PostOr [PostRegex Title s ''i'', PostRegex Content s ''i'',
                             PostRegex Excerpt s ''i'', PostTagsIn s ''i'']])) (db_posts d)
           = filter (matchesSearch m) (db_posts d)"
    by (rule filter_cong) (simp_all only: searchQuery_holds [of "db_regex d" s m, OF assms(4)])
  show ?thesis
    using assms(1-4)
    by (simp only: searchPosts_def Let_def Post_find_def Post_countDocuments_def searchQuery_valid f
          Query_skip_limit_pageOf [OF assms(5,6)])
       (simp add: tryCatch_def succeedPage_def succeed_def f)
qed


lemma matchesSearch_only_tags:
  assumes "\<forall>p \<in> set ps. post_isPublished p \<longrightarrow>
             \<not> m (post_title p) \<and> \<not> m (post_content p)
             \<and> (case post_excerpt p of None \<Rightarrow> True | Some e \<Rightarrow> \<not> m e)"
  shows "filter (matchesSearch m) ps = filter (matchesTag m) ps"
  using assms
  by (intro filter_cong refl) (auto simp: matchesSearch_def matchesTag_def split: option.splits)

lemma pageOf_first_all:
  assumes "int (length xs) \<le> limit"
  shows "pageOf 1 limit xs = xs"
  using assms by (simp add: pageOf_def)

lemma searchPosts_rejected:
  assumes "\<not> truthy (queryParam req ''q'')"
  shows "searchPosts d req = (failure 400 ''Search query is required'', d)"
  using assms by (simp add: searchPosts_def tryCatch_def truthy_def Let_def split: option.splits)

lemmas search_defs =
  searchPosts_def getAllPosts_def tryCatch_def succeedPage_def succeed_def Let_def
  toLowerCase_def numeral_2_eq_2

text \<open>
  Claim C6 says that a search whose text matches only tags of some published posts returns
  exactly those posts. The response holds one page: with two such posts and one post per
  page, only the newer one comes back.
\<close>

theorem searchPosts_by_tag_counterexample:
  "res_data (fst (searchPosts blog (request [] [(''q'', ''news''), (''limit'', ''1'')] None)))
     = PostList [world]
   \<and> hello \<in> set (db_posts blog) \<and> hello \<noteq> world \<and> post_isPublished hello
   \<and> postQuery_holds (db_regex blog) (PostTagsIn ''news'' ''i'') hello
   \<and> \<not> postQuery_holds (db_regex blog) (PostRegex Title ''news'' ''i'') hello
   \<and> \<not> postQuery_holds (db_regex blog) (PostRegex Content ''news'' ''i'') hello
   \<and> \<not> postQuery_holds (db_regex blog) (PostRegex Excerpt ''news'' ''i'') hello
   \<and> \<not> postQuery_holds (db_regex blog) (PostRegex Title ''news'' ''i'') world
   \<and> \<not> postQuery_holds (db_regex blog) (PostRegex Content ''news'' ''i'') world
   \<and> \<not> postQuery_holds (db_regex blog) (PostRegex Excerpt ''news'' ''i'') world"
  by (simp add: search_defs parse_defs query_defs sample_defs)

text \<open>
  Claim C6, amended. A search without a text, or with the empty text, is rejected with the
  400 response and no post. A search whose text matches, without regard to case, only tags
  of published posts returns the requested page of exactly those posts, newest first, and
  so all of them when they fit on the first page.
\<close>

theorem searchPosts_by_tag_or_rejected:
  "(\<not> truthy (queryParam req ''q'') \<longrightarrow>
      searchPosts d req = (failure 400 ''Search query is required'', d))
   \<and> (\<forall>q m. queryParam req ''q'' = Some q \<and> q \<noteq> []
          \<and> db_connected d \<and> db_regex d q ''i'' = Some m
          \<and> (\<forall>p \<in> set (db_posts d). post_isPublished p \<longrightarrow>
                 \<not> m (post_title p) \<and> \<not> m (post_content p)
                 \<and> (case post_excerpt p of None \<Rightarrow> True | Some e \<Rightarrow> \<not> m e))
          \<and> 1 \<le> parseIntOr (queryParam req ''page'') 1
          \<and> 1 \<le> parseIntOr (queryParam req ''limit'') 10
        \<longrightarrow>
          res_data (fst (searchPosts d req)) =
            PostList (pageOf (parseIntOr (queryParam req ''page'') 1)
                             (parseIntOr (queryParam req ''limit'') 10)
                        (Query_sort ''createdAt'' (- 1) (filter (matchesTag m) (db_posts d))))
          \<and> (parseIntOr (queryParam req ''page'') 1 = 1
               \<and> int (length (filter (matchesTag m) (db_posts d)))
                     \<le> parseIntOr (queryParam req ''limit'') 10
             \<longrightarrow>
               res_data (fst (searchPosts d req)) =
                 PostList (Query_sort ''createdAt'' (- 1) (filter (matchesTag m) (db_posts d)))))"
proof (intro conjI allI impI)
  assume "\<not> truthy (queryParam req ''q'')"
  then show "searchPosts d req = (failure 400 ''Search query is required'', d)"
    by (rule searchPosts_rejected)
next
  fix q m
  assume h: "queryParam req ''q'' = Some q \<and> q \<noteq> []
          \<and> db_connected d \<and> db_regex d q ''i'' = Some m
          \<and> (\<forall>p \<in> set (db_posts d). post_isPublished p \<longrightarrow>
                 \<not> m (post_title p) \<and> \<not> m (post_content p)
                 \<and> (case post_excerpt p of None \<Rightarrow> True | Some e \<Rightarrow> \<not> m e))
          \<and> 1 \<le> parseIntOr (queryParam req ''page'') 1
          \<and> 1 \<le> parseIntOr (queryParam req ''limit'') 10"
  then have sel: "res_data (fst (searchPosts d req)) =
           PostList (pageOf (parseIntOr (queryParam req ''page'') 1)
                            (parseIntOr (queryParam req ''limit'') 10)
                       (Query_sort ''createdAt'' (- 1) (filter (matchesSearch m) (db_posts d))))"
    by (intro searchPosts_selected [where s = q and m = m]) simp_all
  have tags: "filter (matchesSearch m) (db_posts d) = filter (matchesTag m) (db_posts d)"
    using h by (intro matchesSearch_only_tags) simp
  show page: "res_data (fst (searchPosts d req)) =
            PostList (pageOf (parseIntOr (queryParam req ''page'') 1)
                             (parseIntOr (queryParam req ''limit'') 10)
                        (Query_sort ''createdAt'' (- 1) (filter (matchesTag m) (db_posts d))))"
    using sel tags by simp
  assume fit: "parseIntOr (queryParam req ''page'') 1 = 1
               \<and> int (length (filter (matchesTag m) (db_posts d)))
                     \<le> parseIntOr (queryParam req ''limit'') 10"
  then have "pageOf (parseIntOr (queryParam req ''page'') 1)
                             (parseIntOr (queryParam req ''limit'') 10)
                        (Query_sort ''createdAt'' (- 1) (filter (matchesTag m) (db_posts d)))
             = Query_sort ''createdAt'' (- 1) (filter (matchesTag m) (db_posts d))"
    by (simp add: pageOf_first_all length_Query_sort)
  then show "res_data (fst (searchPosts d req)) =
                 PostList (Query_sort ''createdAt'' (- 1) (filter (matchesTag m) (db_posts d)))"
    using page by simp
qed

theorem searchPosts_by_tag_or_rejected_witness:
  "res_data (fst (searchPosts blog (request [] [(''q'', ''news'')] None))) = PostList [world, hello]
   \<and> searchPosts blog (request [] [] None) = (failure 400 ''Search query is required'', blog)
   \<and> searchPosts blog (request [] [(''q'', [])] None)
       = (failure 400 ''Search query is required'', blog)"
proof -
  let ?req = "request [] [(''q'', ''news'')] None"
  let ?m = "\<lambda>s. containsText ''news'' (map toLowerCase s)"
  have h: "queryParam ?req ''q'' = Some ''news'' \<and> ''news'' \<noteq> []
          \<and> db_connected blog \<and> db_regex blog ''news'' ''i'' = Some ?m
          \<and> (\<forall>p \<in> set (db_posts blog). post_isPublished p \<longrightarrow>
                 \<not> ?m (post_title p) \<and> \<not> ?m (post_content p)
                 \<and> (case post_excerpt p of None \<Rightarrow> True | Some e \<Rightarrow> \<not> ?m e))
          \<and> 1 \<le> parseIntOr (queryParam ?req ''page'') 1
          \<and> 1 \<le> parseIntOr (queryParam ?req ''limit'') 10"
    by (simp add: parse_defs sample_defs toLowerCase_def)
  have fit: "parseIntOr (queryParam ?req ''page'') 1 = 1
             \<and> int (length (filter (matchesTag ?m) (db_posts blog)))
                   \<le> parseIntOr (queryParam ?req ''limit'') 10"
    by (simp add: parse_defs sample_defs matchesTag_def toLowerCase_def)
  have all: "Query_sort ''createdAt'' (- 1) (filter (matchesTag ?m) (db_posts blog)) = [world, hello]"
    by (simp add: query_defs sample_defs matchesTag_def toLowerCase_def)
  have none: "\<not> truthy (queryParam (request [] [] None) ''q'')"
             "\<not> truthy (queryParam (request [] [(''q'', [])] None) ''q'')"
    by (simp_all add: truthy_def queryParam_def request_def)
  have "res_data (fst (searchPosts blog ?req)) =
          PostList (Query_sort ''createdAt'' (- 1) (filter (matchesTag ?m) (db_posts blog)))"
    using searchPosts_by_tag_or_rejected [of ?req blog] h fit by blast
  moreover have "searchPosts blog (request [] [] None) = (failure 400 ''Search query is required'', blog)"
    using searchPosts_by_tag_or_rejected [of "request [] [] None" blog] none(1) by blast
  moreover have "searchPosts blog (request [] [(''q'', [])] None)
       = (failure 400 ''Search query is required'', blog)"
    using searchPosts_by_tag_or_rejected [of "request [] [(''q'', [])] None" blog] none(2) by blast
  ultimately show ?thesis
    by (simp only: all simp_thms)
qed

text \<open>The list handler on a request that carries a search text and neither a category nor
  an author.\<close>

lemma getAllPosts_text_only:
  assumes "s \<noteq> []" and "queryParam req ''search'' = Some s"
      and "\<not> truthy (queryParam req ''category'')" and "\<not> truthy (queryParam req ''author'')"
  shows "getAllPosts d req = tryCatch d (do {
     posts \<leftarrow> Post_find d
        (PostAnd [PostIsPublished True,
                  PostOr [PostRegex Title s ''i'', PostRegex Content s ''i'',
                          PostRegex Excerpt s ''i'', PostTagsIn s ''i'']])
        (orDefault (queryParam req ''sortBy'') ''createdAt'',
         if queryParam req ''sortOrder'' = Some ''asc'' then 1 else - 1)
        ((parseIntOr (queryParam req ''page'') 1 - 1) * parseIntOr (queryParam req ''limit'') 10)
        (parseIntOr (queryParam req ''limit'') 10);
     total \<leftarrow> Post_countDocuments d
        (PostAnd [PostIsPublished True,
                  PostOr [PostRegex Title s ''i'', PostRegex Content s ''i'',
                          PostRegex Excerpt s ''i'', PostTagsIn s ''i'']]);
     Some (succeedPage (PostList posts)
             \<lparr>currentPage = parseIntOr (queryParam req ''page'') 1,
              totalPages = ceilDiv (int total) (parseIntOr (queryParam req ''limit'') 10),
              totalPosts = total,
              postsPerPage = parseIntOr (queryParam req ''limit'') 10,
              hasNextPage = Some (parseIntOr (queryParam req ''page'') 1
                                   < ceilDiv (int total) (parseIntOr (queryParam req ''limit'') 10)),
              hasPrevPage = Some (1 < parseIntOr (queryParam req ''page'') 1),
              searchedFor = None\<rparr>, d)
   })"
proof -
  have q: "setIfTruthy (queryParam req ''category'') f x = x"
          "setIfTruthy (queryParam req ''author'') f x = x" for f and x :: "postQuery list"
    using assms(3,4) by (simp_all add: setIfTruthy_def truthy_def split: option.splits)
  have qs: "setIfTruthy (Some s) f x = f s x" for f and x :: "postQuery list"
    using assms(1) by (simp add: setIfTruthy_def)
  show ?thesis
    by (simp add: getAllPosts_def Let_def assms(2) q qs)
qed

lemma getAllPosts_selected:
  assumes "s \<noteq> []" and "queryParam req ''search'' = Some s"
      and "\<not> truthy (queryParam req ''category'')" and "\<not> truthy (queryParam req ''author'')"
      and "db_connected d" and "db_regex d s ''i'' = Some m"
      and "1 \<le> parseIntOr (queryParam req ''page'') 1"
      and "1 \<le> parseIntOr (queryParam req ''limit'') 10"
  shows "res_data (fst (getAllPosts d req)) =
           PostList (pageOf (parseIntOr (queryParam req ''page'') 1)
                            (parseIntOr (queryParam req ''limit'') 10)
                       (Query_sort (orDefault (queryParam req ''sortBy'') ''createdAt'')
                          (if queryParam req ''sortOrder'' = Some ''asc'' then 1 else - 1)
                          (filter (matchesSearch m) (db_posts d))))"
proof -
  have f: "filter (postQuery_holds (db_regex d)
             (PostAnd [PostIsPublished True,
                     PostOr [PostRegex Title s ''i'', PostRegex Content s ''i'',
                             PostRegex Excerpt s ''i'', PostTagsIn s ''i'']])) (db_posts d)
           = filter (matchesSearch m) (db_posts d)"
    by (rule filter_cong) (simp_all only: searchQuery_holds [of "db_regex d" s m, OF assms(6)])
  show ?thesis
    unfolding getAllPosts_text_only [OF assms(1-4)]
    using assms(5,6)
    by (simp only: Post_find_def Post_countDocuments_def searchQuery_valid f fst_conv snd_conv
          Query_skip_limit_pageOf [OF assms(7,8)])
       (simp add: tryCatch_def succeedPage_def succeed_def f split: if_splits)
qed

text \<open>
  Claim C7. For a non-empty search text, the same page and limit and no category or author
  filter, the search endpoint and the list endpoint select the same posts: the published
  posts whose title, content, excerpt or some tag is matched, without regard to case. Both
  answer with the same status, the same total and the same number of pages, and each
  returns the requested page of that selection in its order: the search endpoint newest
  first, the list endpoint by its sort parameters, newest first when it is given none. So a
  list request that carries just the text, the page and the limit returns the same posts
  in the same order as the search.
\<close>

theorem search_agrees_with_list:
  assumes "s \<noteq> []"
      and "queryParam reqL ''search'' = Some s" and "queryParam reqS ''q'' = Some s"
      and "\<not> truthy (queryParam reqL ''category'')" and "\<not> truthy (queryParam reqL ''author'')"
      and "queryParam reqL ''page'' = queryParam reqS ''page''"
      and "queryParam reqL ''limit'' = queryParam reqS ''limit''"
  shows "res_status (fst (getAllPosts d reqL)) = res_status (fst (searchPosts d reqS))
       \<and> map_option totalPosts (res_pagination (fst (getAllPosts d reqL)))
           = map_option totalPosts (res_pagination (fst (searchPosts d reqS)))
       \<and> map_option totalPages (res_pagination (fst (getAllPosts d reqL)))
           = map_option totalPages (res_pagination (fst (searchPosts d reqS)))
       \<and> (\<forall>m. db_connected d \<and> db_regex d s ''i'' = Some m
              \<and> 1 \<le> parseIntOr (queryParam reqS ''page'') 1
              \<and> 1 \<le> parseIntOr (queryParam reqS ''limit'') 10
            \<longrightarrow> res_data (fst (searchPosts d reqS)) =
                  PostList (pageOf (parseIntOr (queryParam reqS ''page'') 1)
                                   (parseIntOr (queryParam reqS ''limit'') 10)
                              (Query_sort ''createdAt'' (- 1)
                                 (filter (matchesSearch m) (db_posts d))))
              \<and> res_data (fst (getAllPosts d reqL)) =
                  PostList (pageOf (parseIntOr (queryParam reqS ''page'') 1)
                                   (parseIntOr (queryParam reqS ''limit'') 10)
                              (Query_sort (orDefault (queryParam reqL ''sortBy'') ''createdAt'')
                                 (if queryParam reqL ''sortOrder'' = Some ''asc'' then 1 else - 1)
                                 (filter (matchesSearch m) (db_posts d)))))
       \<and> (queryParam reqL ''sortBy'' = None \<and> queryParam reqL ''sortOrder'' = None
            \<longrightarrow> res_data (fst (getAllPosts d reqL)) = res_data (fst (searchPosts d reqS)))
       \<and> (orDefault (queryParam reqL ''sortBy'') ''createdAt'' = ''createdAt''
              \<and> queryParam reqL ''sortOrder'' \<noteq> Some ''asc''
            \<longrightarrow> res_data (fst (getAllPosts d reqL)) = res_data (fst (searchPosts d reqS)))"
proof -
  note L = getAllPosts_text_only [OF assms(1,2,4,5), of d]
  have S: "searchPosts d reqS = tryCatch d (do {
     posts \<leftarrow> Post_find d
        (PostAnd [PostIsPublished True,
                  PostOr [PostRegex Title s ''i'', PostRegex Content s ''i'',
                          PostRegex Excerpt s ''i'', PostTagsIn s ''i'']])
        (''createdAt'', - 1)
        ((parseIntOr (queryParam reqS ''page'') 1 - 1) * parseIntOr (queryParam reqS ''limit'') 10)
        (parseIntOr (queryParam reqS ''limit'') 10);
     total \<leftarrow> Post_countDocuments d
        (PostAnd [PostIsPublished True,
                  PostOr [PostRegex Title s ''i'', PostRegex Content s ''i'',
                          PostRegex Excerpt s ''i'', PostTagsIn s ''i'']]);
     Some (succeedPage (PostList posts)
             \<lparr>currentPage = parseIntOr (queryParam reqS ''page'') 1,
              totalPages = ceilDiv (int total) (parseIntOr (queryParam reqS ''limit'') 10),
              totalPosts = total,
              postsPerPage = parseIntOr (queryParam reqS ''limit'') 10,
              hasNextPage = None, hasPrevPage = None, searchedFor = Some s\<rparr>, d)
   })"
    using assms(1,3) by (simp add: searchPosts_def Let_def)
  have any_sort: "res_status (fst (getAllPosts d reqL)) = res_status (fst (searchPosts d reqS))
       \<and> map_option totalPosts (res_pagination (fst (getAllPosts d reqL)))
           = map_option totalPosts (res_pagination (fst (searchPosts d reqS)))
       \<and> map_option totalPages (res_pagination (fst (getAllPosts d reqL)))
           = map_option totalPages (res_pagination (fst (searchPosts d reqS)))"
    unfolding L S assms(6,7)
    by (simp add: Post_find_def Query_skip_limit_def Post_countDocuments_def tryCatch_def
          succeedPage_def succeed_def failure_def)
  have same_order: "res_data (fst (getAllPosts d reqL)) = res_data (fst (searchPosts d reqS))"
    if "orDefault (queryParam reqL ''sortBy'') ''createdAt'' = ''createdAt''
        \<and> queryParam reqL ''sortOrder'' \<noteq> Some ''asc''"
    unfolding L S assms(6,7) using that
    by (simp add: tryCatch_def succeedPage_def succeed_def failure_def
          split: option.splits bind_splits)
  have unsorted: "res_data (fst (getAllPosts d reqL)) = res_data (fst (searchPosts d reqS))"
    if "queryParam reqL ''sortBy'' = None \<and> queryParam reqL ''sortOrder'' = None"
    using that by (intro same_order) (simp add: orDefault_def)
  have sel: "res_data (fst (searchPosts d reqS)) =
                  PostList (pageOf (parseIntOr (queryParam reqS ''page'') 1)
                                   (parseIntOr (queryParam reqS ''limit'') 10)
                              (Query_sort ''createdAt'' (- 1)
                                 (filter (matchesSearch m) (db_posts d))))
              \<and> res_data (fst (getAllPosts d reqL)) =
                  PostList (pageOf (parseIntOr (queryParam reqS ''page'') 1)
                                   (parseIntOr (queryParam reqS ''limit'') 10)
                              (Query_sort (orDefault (queryParam reqL ''sortBy'') ''createdAt'')
                                 (if queryParam reqL ''sortOrder'' = Some ''asc'' then 1 else - 1)
                                 (filter (matchesSearch m) (db_posts d))))"
    if h: "db_connected d \<and> db_regex d s ''i'' = Some m
              \<and> 1 \<le> parseIntOr (queryParam reqS ''page'') 1
              \<and> 1 \<le> parseIntOr (queryParam reqS ''limit'') 10" for m
  proof
    show "res_data (fst (searchPosts d reqS)) =
                  PostList (pageOf (parseIntOr (queryParam reqS ''page'') 1)
                                   (parseIntOr (queryParam reqS ''limit'') 10)
                              (Query_sort ''createdAt'' (- 1)
                                 (filter (matchesSearch m) (db_posts d))))"
      using h assms(1,3) by (intro searchPosts_selected [where s = s and m = m]) simp_all
    have "res_data (fst (getAllPosts d reqL)) =
           PostList (pageOf (parseIntOr (queryParam reqL ''page'') 1)
                            (parseIntOr (queryParam reqL ''limit'') 10)
                       (Query_sort (orDefault (queryParam reqL ''sortBy'') ''createdAt'')
                          (if queryParam reqL ''sortOrder'' = Some ''asc'' then 1 else - 1)
                          (filter (matchesSearch m) (db_posts d))))"
      using h assms(1,2,4,5)
      by (intro getAllPosts_selected [where s = s and m = m]) (simp_all add: assms(6,7))
    then show "res_data (fst (getAllPosts d reqL)) =
                  PostList (pageOf (parseIntOr (queryParam reqS ''page'') 1)
                                   (parseIntOr (queryParam reqS ''limit'') 10)
                              (Query_sort (orDefault (queryParam reqL ''sortBy'') ''createdAt'')
                                 (if queryParam reqL ''sortOrder'' = Some ''asc'' then 1 else - 1)
                                 (filter (matchesSearch m) (db_posts d))))"
      by (simp only: assms(6,7))
  qed
  show ?thesis
    using any_sort sel unsorted same_order by blast
qed

theorem search_agrees_with_list_witness:
  "res_data (fst (getAllPosts blog (request [] [(''search'', ''news''), (''limit'', ''1'')] None)))
     = PostList [world]
   \<and> res_data (fst (searchPosts blog (request [] [(''q'', ''news''), (''limit'', ''1'')] None)))
     = PostList [world]
   \<and> res_data (fst (getAllPosts blog
        (request [] [(''search'', ''news''), (''limit'', ''1''), (''sortOrder'', ''asc'')] None)))
     = PostList [hello]
   \<and> res_status (fst (getAllPosts blog
        (request [] [(''search'', ''news''), (''limit'', ''1''), (''sortOrder'', ''asc'')] None)))
     = res_status (fst (searchPosts blog (request [] [(''q'', ''news''), (''limit'', ''1'')] None)))"
proof -
  let ?reqL = "request [] [(''search'', ''news''), (''limit'', ''1'')] None"
  let ?reqA = "request [] [(''search'', ''news''), (''limit'', ''1''), (''sortOrder'', ''asc'')] None"
  let ?reqS = "request [] [(''q'', ''news''), (''limit'', ''1'')] None"
  let ?m = "\<lambda>s. containsText ''news'' (map toLowerCase s)"
  have a: "''news'' \<noteq> []" by simp
  have b: "queryParam ?reqL ''search'' = Some ''news''" and b': "queryParam ?reqA ''search'' = Some ''news''"
    and c: "queryParam ?reqS ''q'' = Some ''news''"
    by (simp_all add: queryParam_def request_def)
  have e: "\<not> truthy (queryParam ?reqL ''category'')" and f: "\<not> truthy (queryParam ?reqL ''author'')"
    and e': "\<not> truthy (queryParam ?reqA ''category'')" and f': "\<not> truthy (queryParam ?reqA ''author'')"
    by (simp_all add: truthy_def queryParam_def request_def)
  have i: "queryParam ?reqL ''page'' = queryParam ?reqS ''page''"
    and j: "queryParam ?reqL ''limit'' = queryParam ?reqS ''limit''"
    and i': "queryParam ?reqA ''page'' = queryParam ?reqS ''page''"
    and j': "queryParam ?reqA ''limit'' = queryParam ?reqS ''limit''"
    by (simp_all add: queryParam_def request_def)
  have g: "queryParam ?reqL ''sortBy'' = None \<and> queryParam ?reqL ''sortOrder'' = None"
    by (simp add: queryParam_def request_def)
  have k: "db_connected blog \<and> db_regex blog ''news'' ''i'' = Some ?m
              \<and> 1 \<le> parseIntOr (queryParam ?reqS ''page'') 1
              \<and> 1 \<le> parseIntOr (queryParam ?reqS ''limit'') 10"
    by (simp add: parse_defs sample_defs toLowerCase_def)
  have v: "pageOf (parseIntOr (queryParam ?reqS ''page'') 1)
                  (parseIntOr (queryParam ?reqS ''limit'') 10)
             (Query_sort ''createdAt'' (- 1) (filter (matchesSearch ?m) (db_posts blog))) = [world]"
    by (simp add: pageOf_def parse_defs query_defs sample_defs matchesSearch_def toLowerCase_def)
  have w: "pageOf (parseIntOr (queryParam ?reqS ''page'') 1)
                  (parseIntOr (queryParam ?reqS ''limit'') 10)
             (Query_sort (orDefault (queryParam ?reqA ''sortBy'') ''createdAt'')
                (if queryParam ?reqA ''sortOrder'' = Some ''asc'' then 1 else - 1)
                (filter (matchesSearch ?m) (db_posts blog))) = [hello]"
    by (simp add: pageOf_def parse_defs query_defs sample_defs matchesSearch_def toLowerCase_def)
  note T = search_agrees_with_list [OF a b c e f i j, of blog]
  note A = search_agrees_with_list [OF a b' c e' f' i' j', of blog]
  have "res_data (fst (searchPosts blog ?reqS)) =
          PostList (pageOf (parseIntOr (queryParam ?reqS ''page'') 1)
                  (parseIntOr (queryParam ?reqS ''limit'') 10)
             (Query_sort ''createdAt'' (- 1) (filter (matchesSearch ?m) (db_posts blog))))"
    using T k by blast
  moreover have "res_data (fst (getAllPosts blog ?reqL)) = res_data (fst (searchPosts blog ?reqS))"
    using T g by blast
  moreover have "res_data (fst (getAllPosts blog ?reqA)) =
          PostList (pageOf (parseIntOr (queryParam ?reqS ''page'') 1)
                  (parseIntOr (queryParam ?reqS ''limit'') 10)
             (Query_sort (orDefault (queryParam ?reqA ''sortBy'') ''createdAt'')
                (if queryParam ?reqA ''sortOrder'' = Some ''asc'' then 1 else - 1)
                (filter (matchesSearch ?m) (db_posts blog))))"
    using A k by blast
  moreover have "res_status (fst (getAllPosts blog ?reqA)) = res_status (fst (searchPosts blog ?reqS))"
    using A by blast
  ultimately show ?thesis
    by (simp only: v w simp_thms)
qed

end
